theory Spec2Isabelle
  imports Complex_Main "HOL-Library.Sublist"
begin

section \<open>Values of the host language\<close>

text \<open>
  The program is TypeScript (\<^verbatim>\<open>src/mastra/tools/beachWeatherTool.ts\<close>). Its numbers are
  modelled as reals (a JSON payload carries finite decimals; the rounding error of binary
  floating point is not modelled). A property that holds a number is a \<open>real option\<close>:
  \<open>None\<close> is \<^verbatim>\<open>undefined\<close>, the value read from a property the object does not have.
  The result of arithmetic is a \<open>number\<close>, which can be \<open>NaN\<close>.

  Strings are lists of 8-bit characters, read as the code units U+0000 to U+00FF.
\<close>

datatype number = Num real | NaN

datatype error = Error string | TypeError string

text \<open>
  \<open>TypeError p\<close> is the exception of reading property \<open>p\<close> of \<^verbatim>\<open>undefined\<close>; \<open>message\<close> is
  its text on V8, the engine the tool runs on.
\<close>

fun message :: "error \<Rightarrow> string" where
  "message (Error m) = m"
| "message (TypeError p) =
     ''Cannot read properties of undefined (reading '' @ [CHR 0x27] @ p @ [CHR 0x27] @ '')''"

definition and_then :: "error + 'a \<Rightarrow> ('a \<Rightarrow> error + 'b) \<Rightarrow> error + 'b" where
  "and_then r f = (case r of Inl e \<Rightarrow> Inl e | Inr v \<Rightarrow> f v)"

text \<open>\<open>read_of obj p\<close>: the object whose property \<open>p\<close> is read, or the TypeError when it is undefined.\<close>

definition read_of :: "'a option \<Rightarrow> string \<Rightarrow> error + 'a" where
  "read_of obj p = (case obj of None \<Rightarrow> Inl (TypeError p) | Some v \<Rightarrow> Inr v)"

text \<open>Comparison with a numeric constant: \<^verbatim>\<open>undefined\<close> converts to NaN, and every comparison with NaN is false.\<close>

definition js_gt :: "real option \<Rightarrow> real \<Rightarrow> bool" where
  "js_gt x c = (case x of None \<Rightarrow> False | Some v \<Rightarrow> v > c)"

definition js_lt :: "real option \<Rightarrow> real \<Rightarrow> bool" where
  "js_lt x c = (case x of None \<Rightarrow> False | Some v \<Rightarrow> v < c)"

text \<open>Truthiness of a number-valued property: \<^verbatim>\<open>undefined\<close> and \<open>0\<close> are falsy.\<close>

definition truthy :: "real option \<Rightarrow> bool" where
  "truthy x = (case x of None \<Rightarrow> False | Some v \<Rightarrow> v \<noteq> 0)"

text \<open>\<^verbatim>\<open>Math.round\<close>: the nearest integer, a tie going up; NaN for \<^verbatim>\<open>undefined\<close>.\<close>

definition Math_round :: "real option \<Rightarrow> number" where
  "Math_round x = (case x of None \<Rightarrow> NaN | Some v \<Rightarrow> Num (of_int \<lfloor>v + 1 / 2\<rfloor>))"

definition div_number :: "number \<Rightarrow> real \<Rightarrow> number" where
  "div_number x c = (case x of NaN \<Rightarrow> NaN | Num v \<Rightarrow> Num (v / c))"

subsection \<open>Strings\<close>

text \<open>
  \<^verbatim>\<open>toLowerCase\<close> on the code units below 256: the letters A to Z and the letters U+00C0 to
  U+00DE (the multiplication sign U+00D7 apart) move up by 32, every other unit stays.
\<close>

definition lower_char :: "char \<Rightarrow> char" where
  "lower_char c = (let n = (of_char c :: nat) in
     if (65 \<le> n \<and> n \<le> 90) \<or> (192 \<le> n \<and> n \<le> 222 \<and> n \<noteq> 215)
     then char_of (n + 32) else c)"

definition toLowerCase :: "string \<Rightarrow> string" where
  "toLowerCase s = map lower_char s"

text \<open>\<^verbatim>\<open>trim\<close>: white space (tab, LF, VT, FF, CR, space, no-break space) is dropped at both ends.\<close>

definition is_space :: "char \<Rightarrow> bool" where
  "is_space c = ((of_char c :: nat) \<in> {9, 10, 11, 12, 13, 32, 160})"

definition trim :: "string \<Rightarrow> string" where
  "trim s = rev (dropWhile is_space (rev (dropWhile is_space s)))"

text \<open>\<^verbatim>\<open>s.includes(sub)\<close>: \<open>sub\<close> occurs in \<open>s\<close> as a contiguous run.\<close>

fun js_includes :: "string \<Rightarrow> string \<Rightarrow> bool" where
  "js_includes [] sub = (sub = [])"
| "js_includes (c # cs) sub = (prefix sub (c # cs) \<or> js_includes cs sub)"

text \<open>\<^verbatim>\<open>xs.join(sep)\<close>.\<close>

fun join :: "string \<Rightarrow> string list \<Rightarrow> string" where
  "join sep [] = []"
| "join sep [x] = x"
| "join sep (x # y # ys) = x @ sep @ join sep (y # ys)"

text \<open>The decimal text of a natural number, as a template literal renders it.\<close>

fun string_of_nat :: "nat \<Rightarrow> string" where
  "string_of_nat n =
     (if n < 10 then [char_of (48 + n)]
      else string_of_nat (n div 10) @ [char_of (48 + n mod 10)])"

section \<open>The beach table\<close>

text \<open>
  \<^verbatim>\<open>beachCoordinates\<close> (lines 5 to 15): an object literal used as a dictionary. The properties
  of a value read from it are optional, since a lookup can also return an inherited value (below).
\<close>

record beach =
  b_lat :: "real option"
  b_lon :: "real option"
  b_name :: "string option"

definition entry :: "real \<Rightarrow> real \<Rightarrow> string \<Rightarrow> beach" where
  "entry la lo n = \<lparr>b_lat = Some la, b_lon = Some lo, b_name = Some n\<rparr>"

definition beachCoordinates :: "(string \<times> beach) list" where
  "beachCoordinates =
    [(''coney island'', entry 40.5755 (-73.9707) ''Coney Island Beach''),
     (''brighton beach'', entry 40.5776 (-73.9614) ''Brighton Beach''),
     (''manhattan beach'', entry 40.5888 (-73.9378) ''Manhattan Beach''),
     (''rockaway beach'', entry 40.5892 (-73.8131) ''Rockaway Beach''),
     (''orchard beach'', entry 40.8670 (-73.7854) ''Orchard Beach''),
     (''south beach'', entry 40.5886 (-74.0776) ''South Beach''),
     (''midland beach'', entry 40.5653 (-74.0845) ''Midland Beach''),
     (''cedar grove beach'', entry 40.5434 (-74.1045) ''Cedar Grove Beach''),
     (''wolfes pond beach'', entry 40.5234 (-74.1987) (''Wolfe'' @ [CHR 0x27] @ ''s Pond Beach''))]"

text \<open>\<^verbatim>\<open>Object.keys\<close>: the object's own keys, in the order they were written.\<close>

definition Object_keys :: "(string \<times> 'a) list \<Rightarrow> string list" where
  "Object_keys obj = map fst obj"

text \<open>
  What an object literal inherits from \<^verbatim>\<open>Object.prototype\<close>: its methods (functions, whose
  \<^verbatim>\<open>name\<close> is the method's name and which have no \<^verbatim>\<open>lat\<close> or \<^verbatim>\<open>lon\<close>), the constructor
  (the function \<^verbatim>\<open>Object\<close>) and the accessor \<^verbatim>\<open>__proto__\<close> (the prototype itself, an object
  with none of the three properties).
\<close>

definition inherited_function :: "string \<Rightarrow> beach" where
  "inherited_function n = \<lparr>b_lat = None, b_lon = None, b_name = Some n\<rparr>"

definition Object_prototype :: "(string \<times> beach) list" where
  "Object_prototype =
    [(''constructor'', inherited_function ''Object''),
     (''__proto__'', \<lparr>b_lat = None, b_lon = None, b_name = None\<rparr>),
     (''hasOwnProperty'', inherited_function ''hasOwnProperty''),
     (''isPrototypeOf'', inherited_function ''isPrototypeOf''),
     (''propertyIsEnumerable'', inherited_function ''propertyIsEnumerable''),
     (''toLocaleString'', inherited_function ''toLocaleString''),
     (''toString'', inherited_function ''toString''),
     (''valueOf'', inherited_function ''valueOf''),
     (''__defineGetter__'', inherited_function ''__defineGetter__''),
     (''__defineSetter__'', inherited_function ''__defineSetter__''),
     (''__lookupGetter__'', inherited_function ''__lookupGetter__''),
     (''__lookupSetter__'', inherited_function ''__lookupSetter__'')]"

text \<open>\<^verbatim>\<open>obj[key]\<close>: the object's own property, else the inherited one, else \<^verbatim>\<open>undefined\<close>.\<close>

definition get_property :: "(string \<times> beach) list \<Rightarrow> string \<Rightarrow> beach option" where
  "get_property obj key =
     (case map_of obj key of Some v \<Rightarrow> Some v | None \<Rightarrow> map_of Object_prototype key)"

section \<open>The provider's payload\<close>

text \<open>
  \<^verbatim>\<open>OpenWeatherResponse\<close> (lines 17 to 46), with the properties the tool reads:
  \<open>e_main\<close>, \<open>e_description\<close> are \<^verbatim>\<open>weather[i].main\<close> and \<^verbatim>\<open>.description\<close>; \<open>m_temp\<close>,
  \<open>m_feels_like\<close>, \<open>m_pressure\<close>, \<open>m_humidity\<close> are the properties of \<^verbatim>\<open>main\<close>; \<open>w_speed\<close>,
  \<open>w_deg\<close>, \<open>w_gust\<close> those of \<^verbatim>\<open>wind\<close>; \<open>c_all\<close> is \<^verbatim>\<open>clouds.all\<close>. The interface is a
  compile-time cast of the parsed JSON (line 109), so every property may be absent at run time.
\<close>

record weather_entry =
  e_main :: "string option"
  e_description :: "string option"

record main_obj =
  m_temp :: "real option"
  m_feels_like :: "real option"
  m_pressure :: "real option"
  m_humidity :: "real option"

record wind_obj =
  w_speed :: "real option"
  w_deg :: "real option"
  w_gust :: "real option"

record clouds_obj =
  c_all :: "real option"

record OpenWeatherResponse =
  p_weather :: "weather_entry list option"
  p_main :: "main_obj option"
  p_visibility :: "real option"
  p_wind :: "wind_obj option"
  p_clouds :: "clouds_obj option"

text \<open>\<^verbatim>\<open>weatherData.weather[0]\<close>, for reading its property \<open>p\<close>.\<close>

definition weather_0 :: "OpenWeatherResponse \<Rightarrow> string \<Rightarrow> error + weather_entry" where
  "weather_0 weatherData p =
     and_then (read_of (p_weather weatherData) ''0'')
       (\<lambda>ws. read_of (case ws of [] \<Rightarrow> None | e # _ \<Rightarrow> Some e) p)"

section \<open>The safety assessment\<close>

abbreviation DANGEROUS :: string where "DANGEROUS \<equiv> ''DANGEROUS - DO NOT SWIM''"
abbreviation POOR :: string where "POOR \<equiv> ''POOR - Swimming not recommended''"
abbreviation CAUTION :: string where "CAUTION \<equiv> ''CAUTION - Be careful, check with lifeguards''"
abbreviation GOOD :: string where "GOOD \<equiv> ''GOOD - Safe for swimming''"

text \<open>\<^verbatim>\<open>getSafetyAssessment\<close> (lines 147 to 170). \<^verbatim>\<open>clouds.all\<close> is read last, and only when reached.\<close>

definition getSafetyAssessment :: "OpenWeatherResponse \<Rightarrow> error + string" where
  "getSafetyAssessment weatherData =
     and_then (read_of (p_main weatherData) ''temp'') (\<lambda>m.
     and_then (read_of (p_wind weatherData) ''speed'') (\<lambda>w.
     and_then (weather_0 weatherData ''main'') (\<lambda>e.
     and_then (read_of (e_main e) ''toLowerCase'') (\<lambda>c.
       let temp = m_temp m;
           windSpeed = w_speed w;
           conditions = toLowerCase c;
           visibility = p_visibility weatherData
       in
       if js_includes conditions ''thunderstorm'' \<or> js_includes conditions ''storm''
       then Inr DANGEROUS
       else if js_gt windSpeed 15 \<or> js_lt temp 60 \<or> js_includes conditions ''rain''
               \<or> js_lt visibility 1000
       then Inr POOR
       else if js_gt windSpeed 10 \<or> js_lt temp 70 \<or> js_includes conditions ''drizzle''
       then Inr CAUTION
       else and_then (read_of (p_clouds weatherData) ''all'') (\<lambda>cl.
         if js_gt (c_all cl) 80 then Inr CAUTION else Inr GOOD)))))"

section \<open>The recommendations\<close>

text \<open>
  The advisory literals of \<^verbatim>\<open>getRecommendations\<close>. Each starts with a pictograph, written here
  as the bytes of its UTF-8 encoding (the source file as stored shows each of these bytes as
  the Mac Roman character of the same code). Only the identity of a literal matters below.
\<close>

definition rec_lifeguard :: string where
  "rec_lifeguard = [CHR 0xF0, CHR 0x9F, CHR 0x8F, CHR 0x8A]
     @ '' Swim only when lifeguards are on duty (10 AM - 6 PM during beach season)''"

definition rec_thunderstorm :: string where
  "rec_thunderstorm = [CHR 0xE2, CHR 0x9A, CHR 0xA0, CHR 0xEF, CHR 0xB8, CHR 0x8F]
     @ '' DANGER: Exit water immediately - lightning and severe weather risk''"

definition rec_rain :: string where
  "rec_rain = [CHR 0xF0, CHR 0x9F, CHR 0x8C, CHR 0xA7, CHR 0xEF, CHR 0xB8, CHR 0x8F]
     @ '' Rainy conditions - poor visibility and potential water quality issues''"

definition rec_gust :: string where
  "rec_gust = [CHR 0xF0, CHR 0x9F, CHR 0x92, CHR 0xA8]
     @ '' Very strong wind gusts - dangerous wave conditions likely''"

definition rec_high_wind :: string where
  "rec_high_wind = [CHR 0xF0, CHR 0x9F, CHR 0x8C, CHR 0x8A]
     @ '' High winds create dangerous rip currents - extreme caution advised''"

definition rec_moderate_wind :: string where
  "rec_moderate_wind = [CHR 0xF0, CHR 0x9F, CHR 0x8C, CHR 0xAC, CHR 0xEF, CHR 0xB8, CHR 0x8F]
     @ '' Moderate winds may create strong currents - stay alert''"

definition rec_cold :: string where
  "rec_cold = [CHR 0xF0, CHR 0x9F, CHR 0xA7, CHR 0xA5]
     @ '' Cold air temperature - water will be very cold, hypothermia risk''"

definition rec_cool :: string where
  "rec_cool = [CHR 0xF0, CHR 0x9F, CHR 0x8C, CHR 0xA1, CHR 0xEF, CHR 0xB8, CHR 0x8F]
     @ '' Cool conditions - water may feel cold, consider wetsuit''"

definition rec_very_hot :: string where
  "rec_very_hot = [CHR 0xF0, CHR 0x9F, CHR 0x94, CHR 0xA5]
     @ '' Very hot conditions - frequent water breaks and shade essential''"

definition rec_hot :: string where
  "rec_hot = [CHR 0xE2, CHR 0x98, CHR 0x80, CHR 0xEF, CHR 0xB8, CHR 0x8F]
     @ '' Hot day - apply sunscreen frequently, stay hydrated''"

definition rec_visibility :: string where
  "rec_visibility = [CHR 0xF0, CHR 0x9F, CHR 0x91, CHR 0x81, CHR 0xEF, CHR 0xB8, CHR 0x8F]
     @ '' Poor visibility - difficulty seeing hazards in water''"

definition rec_humidity :: string where
  "rec_humidity = [CHR 0xF0, CHR 0x9F, CHR 0x92, CHR 0xA7]
     @ '' High humidity - heat exhaustion risk, take frequent breaks''"

definition rec_excellent :: string where
  "rec_excellent = [CHR 0xE2, CHR 0x9C, CHR 0x85]
     @ '' Excellent beach conditions - perfect for swimming and beach activities''"

text \<open>
  \<^verbatim>\<open>getRecommendations\<close> (lines 173 to 232). The array the source pushes onto is threaded
  through as \<open>r0\<close>, \<open>r1\<close>, ...: one step per \<^verbatim>\<open>if\<close> statement of the source.
\<close>

definition getRecommendations :: "OpenWeatherResponse \<Rightarrow> error + string list" where
  "getRecommendations weatherData =
     and_then (read_of (p_main weatherData) ''temp'') (\<lambda>m.
     and_then (read_of (p_wind weatherData) ''speed'') (\<lambda>w.
     and_then (weather_0 weatherData ''main'') (\<lambda>e.
     and_then (read_of (e_main e) ''toLowerCase'') (\<lambda>c.
       let temp = m_temp m;
           feelsLike = m_feels_like m;
           windSpeed = w_speed w;
           windGust = w_gust w;
           conditions = toLowerCase c;
           humidity = m_humidity m;
           visibility = p_visibility weatherData;
           r0 = [] @ [rec_lifeguard];
           r1 = (if js_includes conditions ''thunderstorm'' then r0 @ [rec_thunderstorm] else r0);
           r2 = (if js_includes conditions ''rain'' then r1 @ [rec_rain] else r1);
           r3 = (if truthy windGust \<and> js_gt windGust 20 then r2 @ [rec_gust]
                 else if js_gt windSpeed 15 then r2 @ [rec_high_wind]
                 else if js_gt windSpeed 10 then r2 @ [rec_moderate_wind]
                 else r2);
           r4 = (if js_lt temp 65 then r3 @ [rec_cold]
                 else if js_lt temp 75 then r3 @ [rec_cool]
                 else r3);
           r5 = (if js_gt feelsLike 90 then r4 @ [rec_very_hot]
                 else if js_gt feelsLike 85 then r4 @ [rec_hot]
                 else r4);
           r6 = (if js_lt visibility 1000 then r5 @ [rec_visibility] else r5);
           r7 = (if js_gt humidity 80 \<and> js_gt temp 80 then r6 @ [rec_humidity] else r6);
           r8 = (if js_includes conditions ''clear'' \<and> js_gt temp 75 \<and> js_lt windSpeed 10
                 then r7 @ [rec_excellent] else r7)
       in Inr r8))))"

section \<open>The UV warning\<close>

text \<open>
  What the tool reads from its surroundings: the environment variable, the network, and the
  clock. \<open>getHours\<close> is what \<^verbatim>\<open>new Date().getHours()\<close> returns when \<^verbatim>\<open>getUVWarning\<close> runs (the
  local hour of the day), \<open>toISOString\<close> what \<^verbatim>\<open>new Date().toISOString()\<close> returns when the
  result is stamped. The request is the URL's query: \<^verbatim>\<open>lat\<close>, \<^verbatim>\<open>lon\<close> and \<^verbatim>\<open>appid\<close>
  (\<^verbatim>\<open>units=imperial\<close> is constant).
\<close>

record request =
  q_lat :: "real option"
  q_lon :: "real option"
  q_appid :: string

record response =
  ok :: bool
  status :: nat
  statusText :: string
  json :: "error + OpenWeatherResponse"

record env =
  OPENWEATHER_API_KEY :: "string option"
  fetch :: "request \<Rightarrow> error + response"
  getHours :: nat
  toISOString :: string

abbreviation UV_HIGH :: string where
  "UV_HIGH \<equiv> ''High UV exposure risk - use SPF 30+ sunscreen and reapply every 2 hours''"
abbreviation UV_MODERATE :: string where
  "UV_MODERATE \<equiv> ''Moderate UV exposure - sunscreen recommended''"

text \<open>\<^verbatim>\<open>getUVWarning\<close> (lines 235 to 252); \<open>None\<close> is \<^verbatim>\<open>undefined\<close>.\<close>

definition getUVWarning :: "env \<Rightarrow> OpenWeatherResponse \<Rightarrow> error + string option" where
  "getUVWarning env weatherData =
     and_then (read_of (p_main weatherData) ''temp'') (\<lambda>m.
     and_then (read_of (p_clouds weatherData) ''all'') (\<lambda>cl.
       let temp = m_temp m;
           cloudCover = c_all cl;
           hour = getHours env
       in
       if hour \<ge> 10 \<and> hour \<le> 16 \<and> js_lt cloudCover 30 \<and> js_gt temp 70 then Inr (Some UV_HIGH)
       else if hour \<ge> 9 \<and> hour \<le> 17 \<and> js_lt cloudCover 70 then Inr (Some UV_MODERATE)
       else Inr None))"

section \<open>The tool\<close>

text \<open>The result of \<^verbatim>\<open>getBeachWeather\<close> (lines 112 to 137).\<close>

record weather_out =
  d_temperature :: number
  d_feelsLike :: number
  d_humidity :: "real option"
  d_windSpeed :: number
  d_windDirection :: "real option"
  d_windGust :: "number option"
  d_conditions :: "string option"
  d_description :: "string option"
  d_visibility :: number
  d_pressure :: "real option"
  d_cloudCover :: "real option"

record safety_out =
  s_swimmingConditions :: string
  s_recommendations :: "string list"
  s_uvWarning :: "string option"

record result =
  r_beach :: "string option"
  r_latitude :: "real option"
  r_longitude :: "real option"
  r_weather :: weather_out
  r_safety :: safety_out
  r_timestamp :: string

text \<open>The weather sub-record (lines 118 to 130), its properties evaluated in the order written.\<close>

definition weather_record :: "OpenWeatherResponse \<Rightarrow> error + weather_out" where
  "weather_record weatherData =
     and_then (read_of (p_main weatherData) ''temp'') (\<lambda>m.
     and_then (read_of (p_wind weatherData) ''speed'') (\<lambda>w.
     and_then (weather_0 weatherData ''main'') (\<lambda>e.
     and_then (read_of (p_clouds weatherData) ''all'') (\<lambda>cl.
       Inr \<lparr>d_temperature = Math_round (m_temp m),
            d_feelsLike = Math_round (m_feels_like m),
            d_humidity = m_humidity m,
            d_windSpeed = Math_round (w_speed w),
            d_windDirection = w_deg w,
            d_windGust = (if truthy (w_gust w) then Some (Math_round (w_gust w)) else None),
            d_conditions = e_main e,
            d_description = e_description e,
            d_visibility =
              div_number (Math_round (map_option (\<lambda>v. v / 1609.34 * 10) (p_visibility weatherData))) 10,
            d_pressure = m_pressure m,
            d_cloudCover = c_all cl\<rparr>))))"

text \<open>The safety sub-record (lines 131 to 135): the three assessments, on the payload as received.\<close>

definition safety_record :: "env \<Rightarrow> OpenWeatherResponse \<Rightarrow> error + safety_out" where
  "safety_record env weatherData =
     and_then (getSafetyAssessment weatherData) (\<lambda>sc.
     and_then (getRecommendations weatherData) (\<lambda>recs.
     and_then (getUVWarning env weatherData) (\<lambda>uv.
       Inr \<lparr>s_swimmingConditions = sc, s_recommendations = recs, s_uvWarning = uv\<rparr>)))"

text \<open>The \<^verbatim>\<open>try\<close> block of \<^verbatim>\<open>getBeachWeather\<close> (lines 87 to 139).\<close>

definition getBeachWeather_try :: "env \<Rightarrow> string \<Rightarrow> error + result" where
  "getBeachWeather_try env beachName =
     (let normalizedName = trim (toLowerCase beachName) in
      case get_property beachCoordinates normalizedName of
        None \<Rightarrow> Inl (Error (''Beach \"'' @ beachName @ ''\" not found. Available beaches: ''
                   @ join '', '' (Object_keys beachCoordinates)))
      | Some beach \<Rightarrow>
        (case OPENWEATHER_API_KEY env of
           None \<Rightarrow> Inl (Error ''OpenWeather API key not configured in environment variables'')
         | Some apiKey \<Rightarrow>
           if apiKey = [] then Inl (Error ''OpenWeather API key not configured in environment variables'')
           else
           and_then (fetch env \<lparr>q_lat = b_lat beach, q_lon = b_lon beach, q_appid = apiKey\<rparr>) (\<lambda>response.
             if \<not> ok response
             then Inl (Error (''OpenWeather API error: '' @ string_of_nat (status response)
                        @ '' '' @ statusText response))
             else
             and_then (json response) (\<lambda>weatherData.
             and_then (weather_record weatherData) (\<lambda>wr.
             and_then (safety_record env weatherData) (\<lambda>sr.
               Inr \<lparr>r_beach = b_name beach,
                    r_latitude = b_lat beach,
                    r_longitude = b_lon beach,
                    r_weather = wr,
                    r_safety = sr,
                    r_timestamp = toISOString env\<rparr>))))))"

text \<open>\<^verbatim>\<open>getBeachWeather\<close> (lines 85 to 144): whatever the block throws is thrown again, wrapped.\<close>

definition getBeachWeather :: "env \<Rightarrow> string \<Rightarrow> error + result" where
  "getBeachWeather env beachName =
     (case getBeachWeather_try env beachName of
        Inl e \<Rightarrow> Inl (Error (''Failed to fetch beach weather data: '' @ message e))
      | Inr r \<Rightarrow> Inr r)"

text \<open>The wrapped TypeError of a read of property \<open>p\<close> that hit \<^verbatim>\<open>undefined\<close>.\<close>

abbreviation read_failure :: "string \<Rightarrow> error + result" where
  "read_failure p \<equiv>
     Inl (Error (''Failed to fetch beach weather data: '' @ message (TypeError p)))"

section \<open>The specification's vocabulary\<close>

text \<open>
  The tool has no condition category: each rule tests the lower-cased condition text itself.
  The two definitions below are the specification's reading (its sections 4.2 and 4.3), kept
  apart from the code and used only to compare the two.
\<close>

datatype category = Thunderstorm | Rain | Drizzle | Clouds | Clear | Other

definition spec_category :: "string \<Rightarrow> category" where
  "spec_category text =
     (let t = toLowerCase text in
      if js_includes t ''thunderstorm'' then Thunderstorm
      else if js_includes t ''rain'' then Rain
      else if js_includes t ''drizzle'' then Drizzle
      else if js_includes t ''clouds'' then Clouds
      else if js_includes t ''clear'' then Clear
      else Other)"

datatype verdict = Good | Caution | Poor | Dangerous

fun verdict_text :: "verdict \<Rightarrow> string" where
  "verdict_text Good = GOOD"
| "verdict_text Caution = CAUTION"
| "verdict_text Poor = POOR"
| "verdict_text Dangerous = DANGEROUS"

fun rank :: "verdict \<Rightarrow> nat" where
  "rank Good = 0"
| "rank Caution = 1"
| "rank Poor = 2"
| "rank Dangerous = 3"

definition spec_verdict :: "category \<Rightarrow> real \<Rightarrow> real \<Rightarrow> real \<Rightarrow> real \<Rightarrow> verdict" where
  "spec_verdict cat windSpeed temp visibility cloudCover =
     (if cat = Thunderstorm then Dangerous
      else if windSpeed > 15 \<or> temp < 60 \<or> cat = Rain \<or> visibility < 1000 then Poor
      else if windSpeed > 10 \<or> temp < 70 \<or> cat = Drizzle \<or> cloudCover > 80 then Caution
      else Good)"

text \<open>The most severe verdict among those of the rules that matched; \<open>Good\<close> when none did.\<close>

definition most_severe :: "(bool \<times> verdict) list \<Rightarrow> verdict" where
  "most_severe rules =
     foldr (\<lambda>(matched, v) acc. if matched \<and> rank acc < rank v then v else acc) rules Good"

text \<open>The advisories in the order \<^verbatim>\<open>getRecommendations\<close> tests them.\<close>

definition advisory_sequence :: "string list" where
  "advisory_sequence =
     [rec_lifeguard, rec_thunderstorm, rec_rain, rec_gust, rec_high_wind, rec_moderate_wind,
      rec_cold, rec_cool, rec_very_hot, rec_hot, rec_visibility, rec_humidity, rec_excellent]"

section \<open>Sample inputs\<close>

text \<open>A payload with every property present (the gust apart, which the provider may omit).\<close>

definition complete_payload ::
  "string \<Rightarrow> real \<Rightarrow> real \<Rightarrow> real \<Rightarrow> real \<Rightarrow> real option \<Rightarrow> real \<Rightarrow> real \<Rightarrow> OpenWeatherResponse" where
  "complete_payload cond temp feels hum speed gust vis cloud =
     \<lparr>p_weather = Some [\<lparr>e_main = Some cond, e_description = Some cond\<rparr>],
      p_main = Some \<lparr>m_temp = Some temp, m_feels_like = Some feels,
                     m_pressure = Some 1013, m_humidity = Some hum\<rparr>,
      p_visibility = Some vis,
      p_wind = Some \<lparr>w_speed = Some speed, w_deg = Some 180, w_gust = gust\<rparr>,
      p_clouds = Some \<lparr>c_all = Some cloud\<rparr>\<rparr>"

text \<open>Surroundings in which the key is set and the provider answers every request with \<open>wd\<close>.\<close>

definition provider_env :: "OpenWeatherResponse \<Rightarrow> nat \<Rightarrow> env" where
  "provider_env wd hour =
     \<lparr>OPENWEATHER_API_KEY = Some ''key'',
      fetch = (\<lambda>q. Inr \<lparr>ok = True, status = 200, statusText = ''OK'', json = Inr wd\<rparr>),
      getHours = hour,
      toISOString = ''2025-07-04T16:00:00.000Z''\<rparr>"

text \<open>A provider that refuses a request without coordinates, as the real one does.\<close>

definition strict_env :: env where
  "strict_env =
     \<lparr>OPENWEATHER_API_KEY = Some ''key'',
      fetch = (\<lambda>q. if q_lat q = None \<or> q_lon q = None
                 then Inr \<lparr>ok = False, status = 400, statusText = ''Bad Request'',
                           json = Inl (Error ''Unexpected end of JSON input'')\<rparr>
                 else Inr \<lparr>ok = True, status = 200, statusText = ''OK'',
                           json = Inr (complete_payload ''Clear'' 80 80 50 5 None 10000 10)\<rparr>),
      getHours = 12,
      toISOString = ''2025-07-04T16:00:00.000Z''\<rparr>"

text \<open>Payloads that lack a required property: the temperature; the wind speed and the visibility.\<close>

definition no_temperature :: OpenWeatherResponse where
  "no_temperature = (complete_payload ''Clear'' 80 80 50 5 None 10000 10)
     \<lparr>p_main := Some \<lparr>m_temp = None, m_feels_like = Some 80,
                        m_pressure = Some 1013, m_humidity = Some 50\<rparr>\<rparr>"

definition no_wind_speed :: OpenWeatherResponse where
  "no_wind_speed = (complete_payload ''Clear'' 80 80 50 5 None 10000 10)
     \<lparr>p_visibility := None,
      p_wind := Some \<lparr>w_speed = None, w_deg = Some 180, w_gust = None\<rparr>\<rparr>"

section \<open>Basic facts\<close>

lemma and_then_Inl [simp]: "and_then (Inl e) f = Inl e"
  by (simp add: and_then_def)

lemma and_then_Inr [simp]: "and_then (Inr v) f = f v"
  by (simp add: and_then_def)

lemma read_of_None [simp]: "read_of None p = Inl (TypeError p)"
  by (simp add: read_of_def)

lemma read_of_Some [simp]: "read_of (Some v) p = Inr v"
  by (simp add: read_of_def)

lemma js_gt_None [simp]: "js_gt None c = False"
  by (simp add: js_gt_def)

lemma js_gt_Some [simp]: "js_gt (Some v) c = (v > c)"
  by (simp add: js_gt_def)

lemma js_lt_None [simp]: "js_lt None c = False"
  by (simp add: js_lt_def)

lemma js_lt_Some [simp]: "js_lt (Some v) c = (v < c)"
  by (simp add: js_lt_def)

lemma truthy_None [simp]: "truthy None = False"
  by (simp add: truthy_def)

lemma truthy_Some [simp]: "truthy (Some v) = (v \<noteq> 0)"
  by (simp add: truthy_def)

lemma js_includes_sublist: "js_includes s sub = sublist sub s"
  by (induction s) (auto simp: sublist_Cons_right)

lemmas string_eval = toLowerCase_def lower_char_def char_of_def bit_Suc_0_iff

section \<open>The recommendation list as a concatenation\<close>

lemma weather_0_Some: "p_weather wd = Some (e # es) \<Longrightarrow> weather_0 wd p = Inr e"
  by (simp add: weather_0_def)

lemma push_if: "(if b then r @ [s] else r) = r @ (if b then [s] else [])"
  by simp

lemma push_if2:
  "(if a then r @ [x] else if b then r @ [y] else r)
     = r @ (if a then [x] else if b then [y] else [])"
  by simp

lemma push_if3:
  "(if a then r @ [x] else if b then r @ [y] else if c then r @ [z] else r)
     = r @ (if a then [x] else if b then [y] else if c then [z] else [])"
  by simp

lemma getRecommendations_segments:
  assumes "p_main wd = Some m" "p_wind wd = Some w" "p_weather wd = Some (e # es)" "e_main e = Some c"
  shows "getRecommendations wd = Inr ([rec_lifeguard]
     @ (if js_includes (toLowerCase c) ''thunderstorm'' then [rec_thunderstorm] else [])
     @ (if js_includes (toLowerCase c) ''rain'' then [rec_rain] else [])
     @ (if truthy (w_gust w) \<and> js_gt (w_gust w) 20 then [rec_gust]
        else if js_gt (w_speed w) 15 then [rec_high_wind]
        else if js_gt (w_speed w) 10 then [rec_moderate_wind] else [])
     @ (if js_lt (m_temp m) 65 then [rec_cold] else if js_lt (m_temp m) 75 then [rec_cool] else [])
     @ (if js_gt (m_feels_like m) 90 then [rec_very_hot]
        else if js_gt (m_feels_like m) 85 then [rec_hot] else [])
     @ (if js_lt (p_visibility wd) 1000 then [rec_visibility] else [])
     @ (if js_gt (m_humidity m) 80 \<and> js_gt (m_temp m) 80 then [rec_humidity] else [])
     @ (if js_includes (toLowerCase c) ''clear'' \<and> js_gt (m_temp m) 75 \<and> js_lt (w_speed w) 10
        then [rec_excellent] else []))"
  using assms
  by (simp add: getRecommendations_def weather_0_Some push_if3 push_if2 push_if Let_def
      split del: if_split)

lemmas rec_defs = rec_lifeguard_def rec_thunderstorm_def rec_rain_def rec_gust_def
  rec_high_wind_def rec_moderate_wind_def rec_cold_def rec_cool_def rec_very_hot_def
  rec_hot_def rec_visibility_def rec_humidity_def rec_excellent_def

lemma distinct_advisory_sequence: "distinct advisory_sequence"
  unfolding advisory_sequence_def rec_defs by simp

lemmas advisory_neq = distinct_advisory_sequence [unfolded advisory_sequence_def, simplified]

lemma in_set_if: "x \<in> set (if b then [s] else []) \<longleftrightarrow> b \<and> x = s"
  by auto

lemma in_set_if2:
  "x \<in> set (if a then [p] else if b then [q] else []) \<longleftrightarrow>
     (a \<and> x = p) \<or> (\<not> a \<and> b \<and> x = q)"
  by auto

lemma in_set_if3:
  "x \<in> set (if a then [p] else if b then [q] else if c then [r] else []) \<longleftrightarrow>
     (a \<and> x = p) \<or> (\<not> a \<and> b \<and> x = q) \<or> (\<not> a \<and> \<not> b \<and> c \<and> x = r)"
  by auto

lemma distinct_rev_advisory_sequence: "distinct (rev advisory_sequence)"
  using distinct_advisory_sequence by simp

lemmas advisory_neq' = distinct_rev_advisory_sequence [unfolded advisory_sequence_def, simplified]

lemma truthy_gust: "(truthy g \<and> js_gt g 20) = js_gt g 20"
  by (cases g) auto

lemma subseq_if: "subseq (if b then [s] else []) [s]"
  by simp

lemma subseq_if2: "subseq (if a then [p] else if b then [q] else []) [p, q]"
  by simp

lemma subseq_if3:
  "subseq (if a then [p] else if b then [q] else if c then [r] else []) [p, q, r]"
  by simp

lemma length_if: "length (if b then [s] else []) \<le> 1"
  by simp

lemma length_if2: "length (if a then [p] else if b then [q] else []) \<le> 1"
  by simp

lemma length_if3:
  "length (if a then [p] else if b then [q] else if c then [r] else []) \<le> 1"
  by simp

lemma temperature_lines:
  "length (if js_lt t 65 then [a] else if js_lt t 75 then [b] else [])
   + length (if h \<and> js_gt t 80 then [c] else [])
   + length (if cl \<and> js_gt t 75 \<and> s then [d] else []) \<le> 2"
  by (cases t) auto

section \<open>The severity cascade\<close>

lemma storm_in_thunderstorm: "js_includes s ''thunderstorm'' \<Longrightarrow> js_includes s ''storm''"
proof -
  assume "js_includes s ''thunderstorm''"
  then obtain ps ss where "s = ps @ ''thunderstorm'' @ ss"
    unfolding js_includes_sublist sublist_def by blast
  then have "s = (ps @ ''thunder'') @ ''storm'' @ ss"
    by simp
  then show "js_includes s ''storm''"
    unfolding js_includes_sublist sublist_def by blast
qed

lemma getSafetyAssessment_cascade:
  assumes "p_main wd = Some m" "p_wind wd = Some w"
    and "p_weather wd = Some (e # es)" "e_main e = Some c" "p_clouds wd = Some cl"
  shows "getSafetyAssessment wd = Inr
     (if js_includes (toLowerCase c) ''storm'' then DANGEROUS
      else if js_gt (w_speed w) 15 \<or> js_lt (m_temp m) 60 \<or> js_includes (toLowerCase c) ''rain''
              \<or> js_lt (p_visibility wd) 1000 then POOR
      else if js_gt (w_speed w) 10 \<or> js_lt (m_temp m) 70 \<or> js_includes (toLowerCase c) ''drizzle''
              \<or> js_gt (c_all cl) 80 then CAUTION
      else GOOD)"
proof (cases "js_includes (toLowerCase c) ''storm''")
  case True
  with assms show ?thesis
    by (simp add: getSafetyAssessment_def weather_0_Some)
next
  case False
  then have "\<not> js_includes (toLowerCase c) ''thunderstorm''"
    using storm_in_thunderstorm by blast
  with False assms show ?thesis
    by (simp add: getSafetyAssessment_def weather_0_Some Let_def)
qed

lemma most_severe_Cons:
  "most_severe ((b, v) # rules) =
     (if b \<and> rank (most_severe rules) < rank v then v else most_severe rules)"
  by (simp add: most_severe_def)

lemma most_severe_Nil: "most_severe [] = Good"
  by (simp add: most_severe_def)

lemma most_severe_cascade:
  "most_severe [(d, Dangerous), (p1, Poor), (p2, Poor), (p3, Poor), (p4, Poor),
      (c1, Caution), (c2, Caution), (c3, Caution), (c4, Caution)] =
     (if d then Dangerous else if p1 \<or> p2 \<or> p3 \<or> p4 then Poor
      else if c1 \<or> c2 \<or> c3 \<or> c4 then Caution else Good)"
proof -
  have c: "most_severe [(c1, Caution), (c2, Caution), (c3, Caution), (c4, Caution)]
      = (if c1 \<or> c2 \<or> c3 \<or> c4 then Caution else Good)"
    by (simp add: most_severe_Cons most_severe_Nil)
  have p: "most_severe ([(p1, Poor), (p2, Poor), (p3, Poor), (p4, Poor)] @ rest)
      = (if p1 \<or> p2 \<or> p3 \<or> p4 then Poor else most_severe rest)"
    if "rank (most_severe rest) < 2" for rest
    using that by (simp add: most_severe_Cons)
  show ?thesis
    using p [of "[(c1, Caution), (c2, Caution), (c3, Caution), (c4, Caution)]"]
    by (simp add: most_severe_Cons [of d] c)
qed

section \<open>The tool as a whole\<close>

lemma lookup_coney_island:
  "get_property beachCoordinates (trim (toLowerCase ''coney island''))
     = Some (entry 40.5755 (-73.9707) ''Coney Island Beach'')"
  by (simp add: get_property_def beachCoordinates_def trim_def is_space_def string_eval)

lemma lookup_Constructor:
  "get_property beachCoordinates (trim (toLowerCase ''Constructor''))
     = Some (inherited_function ''Object'')"
  by (simp add: get_property_def beachCoordinates_def Object_prototype_def trim_def is_space_def
      string_eval)

lemma lookup_Atlantis:
  "get_property beachCoordinates (trim (toLowerCase ''Atlantis'')) = None"
  by (simp add: get_property_def beachCoordinates_def Object_prototype_def trim_def is_space_def
      string_eval)

lemma and_then_eq_Inr: "and_then r f = Inr y \<longleftrightarrow> (\<exists>v. r = Inr v \<and> f v = Inr y)"
  by (cases r) auto

lemma read_of_eq_Inr: "read_of obj p = Inr v \<longleftrightarrow> obj = Some v"
  by (cases obj) auto

lemma getBeachWeather_fetched:
  assumes "get_property beachCoordinates (trim (toLowerCase beachName)) = Some beach"
    and "OPENWEATHER_API_KEY env = Some apiKey" "apiKey \<noteq> []"
    and "fetch env \<lparr>q_lat = b_lat beach, q_lon = b_lon beach, q_appid = apiKey\<rparr> = Inr response"
    and "ok response" "json response = Inr weatherData"
  shows "getBeachWeather env beachName =
     (case and_then (weather_record weatherData) (\<lambda>wr.
           and_then (safety_record env weatherData) (\<lambda>sr.
             Inr \<lparr>r_beach = b_name beach, r_latitude = b_lat beach, r_longitude = b_lon beach,
                  r_weather = wr, r_safety = sr, r_timestamp = toISOString env\<rparr>)) of
        Inl e \<Rightarrow> Inl (Error (''Failed to fetch beach weather data: '' @ message e))
      | Inr r \<Rightarrow> Inr r)"
  using assms by (simp add: getBeachWeather_def getBeachWeather_try_def)

lemma getBeachWeather_provider:
  assumes "get_property beachCoordinates (trim (toLowerCase beachName)) = Some beach"
    and "weather_record wd = Inr wr" "safety_record (provider_env wd hour) wd = Inr sr"
  shows "getBeachWeather (provider_env wd hour) beachName =
     Inr \<lparr>r_beach = b_name beach, r_latitude = b_lat beach, r_longitude = b_lon beach,
          r_weather = wr, r_safety = sr, r_timestamp = toISOString (provider_env wd hour)\<rparr>"
proof -
  have "getBeachWeather (provider_env wd hour) beachName =
     (case and_then (weather_record wd) (\<lambda>wr.
           and_then (safety_record (provider_env wd hour) wd) (\<lambda>sr.
             Inr \<lparr>r_beach = b_name beach, r_latitude = b_lat beach, r_longitude = b_lon beach,
                  r_weather = wr, r_safety = sr,
                  r_timestamp = toISOString (provider_env wd hour)\<rparr>)) of
        Inl e \<Rightarrow> Inl (Error (''Failed to fetch beach weather data: '' @ message e))
      | Inr r \<Rightarrow> Inr r)"
    by (rule getBeachWeather_fetched [OF assms(1), where apiKey = "''key''"
          and response = "\<lparr>ok = True, status = 200, statusText = ''OK'', json = Inr wd\<rparr>"])
      (simp_all add: provider_env_def)
  then show ?thesis
    using assms(2,3) by simp
qed

lemma weather_record_complete:
  "weather_record (complete_payload cond temp feels hum speed gust vis cloud) =
     Inr \<lparr>d_temperature = Math_round (Some temp),
          d_feelsLike = Math_round (Some feels),
          d_humidity = Some hum,
          d_windSpeed = Math_round (Some speed),
          d_windDirection = Some 180,
          d_windGust = (if truthy gust then Some (Math_round gust) else None),
          d_conditions = Some cond,
          d_description = Some cond,
          d_visibility = div_number (Math_round (Some (vis / 1609.34 * 10))) 10,
          d_pressure = Some 1013,
          d_cloudCover = Some cloud\<rparr>"
  by (simp add: weather_record_def weather_0_def complete_payload_def)

lemma getUVWarning_present:
  assumes "p_main wd = Some m" "p_clouds wd = Some cl"
  shows "getUVWarning env wd = Inr
     (if getHours env \<ge> 10 \<and> getHours env \<le> 16 \<and> js_lt (c_all cl) 30 \<and> js_gt (m_temp m) 70
      then Some UV_HIGH
      else if getHours env \<ge> 9 \<and> getHours env \<le> 17 \<and> js_lt (c_all cl) 70
      then Some UV_MODERATE
      else None)"
  using assms by (simp add: getUVWarning_def Let_def)

lemma safety_record_total:
  assumes "p_main wd = Some m" "p_wind wd = Some w"
    and "p_weather wd = Some (e # es)" "e_main e = Some c" "p_clouds wd = Some cl"
  shows "\<exists>sc recs uv. getSafetyAssessment wd = Inr sc \<and> getRecommendations wd = Inr recs
      \<and> getUVWarning env wd = Inr uv
      \<and> safety_record env wd = Inr \<lparr>s_swimmingConditions = sc, s_recommendations = recs,
            s_uvWarning = uv\<rparr>"
proof -
  obtain sc where sc: "getSafetyAssessment wd = Inr sc"
    using getSafetyAssessment_cascade [OF assms] by blast
  obtain recs where recs: "getRecommendations wd = Inr recs"
    using getRecommendations_segments [OF assms(1-4)] by blast
  obtain uv where uv: "getUVWarning env wd = Inr uv"
    using getUVWarning_present [OF assms(1,5)] by blast
  show ?thesis
    using sc recs uv by (simp add: safety_record_def)
qed

lemma safety_record_complete:
  "\<exists>sr. safety_record env (complete_payload cond temp feels hum speed gust vis cloud) = Inr sr"
proof -
  let ?wd = "complete_payload cond temp feels hum speed gust vis cloud"
  have "p_main ?wd = Some \<lparr>m_temp = Some temp, m_feels_like = Some feels,
                     m_pressure = Some 1013, m_humidity = Some hum\<rparr>"
    "p_wind ?wd = Some \<lparr>w_speed = Some speed, w_deg = Some 180, w_gust = gust\<rparr>"
    "p_weather ?wd = Some (\<lparr>e_main = Some cond, e_description = Some cond\<rparr> # [])"
    "e_main \<lparr>e_main = Some cond, e_description = Some cond\<rparr> = Some cond"
    "p_clouds ?wd = Some \<lparr>c_all = Some cloud\<rparr>"
    by (simp_all add: complete_payload_def)
  from safety_record_total [OF this] show ?thesis
    by blast
qed

lemma not_found_lists_keys:
  assumes "get_property beachCoordinates (trim (toLowerCase beachName)) = None"
  shows "getBeachWeather env beachName =
      Inl (Error (''Failed to fetch beach weather data: Beach \"'' @ beachName
        @ ''\" not found. Available beaches: '' @ join '', '' (Object_keys beachCoordinates)))"
  using assms by (simp add: getBeachWeather_def getBeachWeather_try_def)

lemma Object_keys_beachCoordinates:
  "Object_keys beachCoordinates =
     [''coney island'', ''brighton beach'', ''manhattan beach'', ''rockaway beach'',
      ''orchard beach'', ''south beach'', ''midland beach'', ''cedar grove beach'',
      ''wolfes pond beach'']"
  by (simp add: Object_keys_def beachCoordinates_def)

lemma keys_nine_distinct:
  "length (Object_keys beachCoordinates) = 9 \<and> distinct (Object_keys beachCoordinates)"
  unfolding Object_keys_beachCoordinates by simp

lemma getBeachWeather_Inr:
  assumes "getBeachWeather env beachName = Inr r"
  shows "\<exists>request response weatherData wr sr.
      fetch env request = Inr response \<and> json response = Inr weatherData
      \<and> weather_record weatherData = Inr wr \<and> safety_record env weatherData = Inr sr
      \<and> r_weather r = wr \<and> r_safety r = sr"
  using assms unfolding getBeachWeather_def getBeachWeather_try_def Let_def
  by (auto simp add: and_then_eq_Inr split: option.splits sum.splits if_splits) blast

lemma safety_record_Inr:
  assumes "safety_record env weatherData = Inr sr"
  shows "getSafetyAssessment weatherData = Inr (s_swimmingConditions sr)
      \<and> getRecommendations weatherData = Inr (s_recommendations sr)
      \<and> getUVWarning env weatherData = Inr (s_uvWarning sr)"
  using assms unfolding safety_record_def
  by (auto simp add: and_then_eq_Inr)

lemma safety_record_no_condition_text:
  assumes "p_main wd = Some m" "p_wind wd = Some w"
    and "p_weather wd = Some (e # es)" "e_main e = None"
  shows "safety_record env wd = Inl (TypeError ''toLowerCase'')"
  using assms by (simp add: safety_record_def getSafetyAssessment_def weather_0_Some)

lemma weather_record_present:
  assumes "p_main wd = Some m" "p_wind wd = Some w"
    and "p_weather wd = Some (e # es)" "p_clouds wd = Some cl"
  shows "weather_record wd =
     Inr \<lparr>d_temperature = Math_round (m_temp m),
          d_feelsLike = Math_round (m_feels_like m),
          d_humidity = m_humidity m,
          d_windSpeed = Math_round (w_speed w),
          d_windDirection = w_deg w,
          d_windGust = (if truthy (w_gust w) then Some (Math_round (w_gust w)) else None),
          d_conditions = e_main e,
          d_description = e_description e,
          d_visibility =
            div_number (Math_round (map_option (\<lambda>v. v / 1609.34 * 10) (p_visibility wd))) 10,
          d_pressure = m_pressure m,
          d_cloudCover = c_all cl\<rparr>"
  using assms by (simp add: weather_record_def weather_0_Some)

lemma safety_record_present:
  assumes "p_main wd = Some m" "p_wind wd = Some w"
    and "p_weather wd = Some (e # es)" "e_main e = Some c" "p_clouds wd = Some cl"
  shows "safety_record env wd =
     Inr \<lparr>s_swimmingConditions =
            (if js_includes (toLowerCase c) ''storm'' then DANGEROUS
             else if js_gt (w_speed w) 15 \<or> js_lt (m_temp m) 60
                     \<or> js_includes (toLowerCase c) ''rain'' \<or> js_lt (p_visibility wd) 1000
             then POOR
             else if js_gt (w_speed w) 10 \<or> js_lt (m_temp m) 70
                     \<or> js_includes (toLowerCase c) ''drizzle'' \<or> js_gt (c_all cl) 80
             then CAUTION
             else GOOD),
          s_recommendations =
            [rec_lifeguard]
            @ (if js_includes (toLowerCase c) ''thunderstorm'' then [rec_thunderstorm] else [])
            @ (if js_includes (toLowerCase c) ''rain'' then [rec_rain] else [])
            @ (if js_gt (w_gust w) 20 then [rec_gust]
               else if js_gt (w_speed w) 15 then [rec_high_wind]
               else if js_gt (w_speed w) 10 then [rec_moderate_wind] else [])
            @ (if js_lt (m_temp m) 65 then [rec_cold]
               else if js_lt (m_temp m) 75 then [rec_cool] else [])
            @ (if js_gt (m_feels_like m) 90 then [rec_very_hot]
               else if js_gt (m_feels_like m) 85 then [rec_hot] else [])
            @ (if js_lt (p_visibility wd) 1000 then [rec_visibility] else [])
            @ (if js_gt (m_humidity m) 80 \<and> js_gt (m_temp m) 80 then [rec_humidity] else [])
            @ (if js_includes (toLowerCase c) ''clear'' \<and> js_gt (m_temp m) 75
                  \<and> js_lt (w_speed w) 10
               then [rec_excellent] else []),
          s_uvWarning =
            (if getHours env \<ge> 10 \<and> getHours env \<le> 16 \<and> js_lt (c_all cl) 30
                \<and> js_gt (m_temp m) 70
             then Some UV_HIGH
             else if getHours env \<ge> 9 \<and> getHours env \<le> 17 \<and> js_lt (c_all cl) 70
             then Some UV_MODERATE
             else None)\<rparr>"
  unfolding safety_record_def getSafetyAssessment_cascade [OF assms]
    getRecommendations_segments [OF assms(1-4)] getUVWarning_present [OF assms(1,5)] truthy_gust
  by simp

lemma safety_record_needs_text:
  assumes "safety_record env wd = Inr sr" "p_weather wd = Some (e # es)"
  shows "\<exists>c. e_main e = Some c"
  using assms unfolding safety_record_def getSafetyAssessment_def
  by (auto simp add: and_then_eq_Inr read_of_eq_Inr weather_0_Some)

lemma weather_record_needs:
  assumes "weather_record wd = Inr wr"
  shows "\<exists>m w e es cl. p_main wd = Some m \<and> p_wind wd = Some w
      \<and> p_weather wd = Some (e # es) \<and> p_clouds wd = Some cl"
  using assms
  by (cases "p_main wd"; cases "p_wind wd"; cases "p_weather wd"; cases "p_clouds wd")
    (auto simp add: weather_record_def weather_0_def split: list.splits)

section \<open>The claims\<close>

text \<open>
  C1, as the code has it. The code tests the lower-cased condition text, not a category, and
  its DANGEROUS rule is "the text contains \<^verbatim>\<open>storm\<close>" (which every text containing
  \<^verbatim>\<open>thunderstorm\<close> does). With that rule in place of "the category is thunderstorm", the
  claim holds for every payload whose temperature, wind speed, condition text, visibility and
  cloud cover are present: the verdict is the most severe tier among the rules that match,
  that is DANGEROUS when the text contains \<^verbatim>\<open>storm\<close>; otherwise POOR when wind speed is over
  15, or temperature under 60, or the text contains \<^verbatim>\<open>rain\<close>, or visibility is under 1000 m;
  otherwise CAUTION when wind speed is over 10, or temperature under 70, or the text contains
  \<^verbatim>\<open>drizzle\<close>, or cloud cover is over 80; otherwise GOOD.
\<close>

theorem most_severe_matching_rule:
  assumes "p_main wd = Some m" "m_temp m = Some temp"
    and "p_wind wd = Some w" "w_speed w = Some windSpeed"
    and "p_weather wd = Some (e # es)" "e_main e = Some c"
    and "p_visibility wd = Some visibility"
    and "p_clouds wd = Some cl" "c_all cl = Some cloudCover"
  shows "getSafetyAssessment wd = Inr (verdict_text (most_severe
      [(js_includes (toLowerCase c) ''storm'', Dangerous),
       (windSpeed > 15, Poor), (temp < 60, Poor),
       (js_includes (toLowerCase c) ''rain'', Poor), (visibility < 1000, Poor),
       (windSpeed > 10, Caution), (temp < 70, Caution),
       (js_includes (toLowerCase c) ''drizzle'', Caution), (cloudCover > 80, Caution)]))
    \<and> getSafetyAssessment wd = Inr
      (if js_includes (toLowerCase c) ''storm'' then DANGEROUS
       else if windSpeed > 15 \<or> temp < 60 \<or> js_includes (toLowerCase c) ''rain''
               \<or> visibility < 1000 then POOR
       else if windSpeed > 10 \<or> temp < 70 \<or> js_includes (toLowerCase c) ''drizzle''
               \<or> cloudCover > 80 then CAUTION
       else GOOD)"
proof -
  have cascade: "getSafetyAssessment wd = Inr
      (if js_includes (toLowerCase c) ''storm'' then DANGEROUS
       else if windSpeed > 15 \<or> temp < 60 \<or> js_includes (toLowerCase c) ''rain''
               \<or> visibility < 1000 then POOR
       else if windSpeed > 10 \<or> temp < 70 \<or> js_includes (toLowerCase c) ''drizzle''
               \<or> cloudCover > 80 then CAUTION
       else GOOD)"
    using getSafetyAssessment_cascade [OF assms(1,3,5,6,8)] assms(2,4,7,9)
    by (simp split del: if_split cong: if_cong)
  show ?thesis
    unfolding most_severe_cascade using cascade
    by (simp add: if_distrib [of verdict_text] split del: if_split cong: if_cong)
qed

theorem most_severe_matching_rule_witness:
  "getSafetyAssessment (complete_payload ''Clouds'' 72 72 50 12 None 10000 50) = Inr CAUTION"
proof -
  let ?wd = "complete_payload ''Clouds'' 72 72 50 12 None 10000 50"
  obtain m w e where h: "p_main ?wd = Some m" "m_temp m = Some 72"
      "p_wind ?wd = Some w" "w_speed w = Some 12"
      "p_weather ?wd = Some (e # [])" "e_main e = Some ''Clouds''"
      "p_visibility ?wd = Some 10000"
    by (simp add: complete_payload_def)
  have cl: "p_clouds ?wd = Some \<lparr>c_all = Some 50\<rparr>" "c_all \<lparr>c_all = Some 50\<rparr> = Some 50"
    by (simp_all add: complete_payload_def)
  from most_severe_matching_rule [OF h cl] show ?thesis
    by (simp add: string_eval most_severe_def)
qed

text \<open>
  C1 as stated fails: the text \<^verbatim>\<open>Sandstorm\<close> has no thunderstorm, rain or drizzle cue, so with
  mild weather the claim's rules give GOOD, and the code answers DANGEROUS.
\<close>

theorem storm_not_thunderstorm_counterexample:
  "getSafetyAssessment (complete_payload ''Sandstorm'' 80 80 50 5 None 10000 10)
     \<noteq> Inr (verdict_text (spec_verdict (spec_category ''Sandstorm'') 5 80 10000 10))"
  by (simp add: getSafetyAssessment_def weather_0_def complete_payload_def spec_verdict_def
      spec_category_def string_eval)

text \<open>
  C6: the three wind advisories exclude each other, the gust first. When a gust is present and
  over 20 mph only the severe-gust line is in the list; otherwise, when the sustained wind is
  over 15 mph only the rip-current line; otherwise, when it is over 10 mph only the
  moderate-wind line; otherwise none of the three.
\<close>

theorem wind_advisories_exclusive:
  assumes "p_main wd = Some m" "p_wind wd = Some w"
    and "p_weather wd = Some (e # es)" "e_main e = Some c"
  shows "\<exists>recs. getRecommendations wd = Inr recs \<and>
     (if js_gt (w_gust w) 20
      then rec_gust \<in> set recs \<and> rec_high_wind \<notin> set recs \<and> rec_moderate_wind \<notin> set recs
      else if js_gt (w_speed w) 15
      then rec_gust \<notin> set recs \<and> rec_high_wind \<in> set recs \<and> rec_moderate_wind \<notin> set recs
      else if js_gt (w_speed w) 10
      then rec_gust \<notin> set recs \<and> rec_high_wind \<notin> set recs \<and> rec_moderate_wind \<in> set recs
      else rec_gust \<notin> set recs \<and> rec_high_wind \<notin> set recs \<and> rec_moderate_wind \<notin> set recs)"
proof -
  note seg = getRecommendations_segments [OF assms]
  have gust: "rec_gust \<in> set recs \<longleftrightarrow> js_gt (w_gust w) 20"
    if "getRecommendations wd = Inr recs" for recs
    using that unfolding seg
    by (clarsimp simp add: in_set_if in_set_if2 in_set_if3 advisory_neq advisory_neq' truthy_gust
        split del: if_split)
  have high: "rec_high_wind \<in> set recs \<longleftrightarrow> \<not> js_gt (w_gust w) 20 \<and> js_gt (w_speed w) 15"
    if "getRecommendations wd = Inr recs" for recs
    using that unfolding seg
    by (clarsimp simp add: in_set_if in_set_if2 in_set_if3 advisory_neq advisory_neq' truthy_gust
        split del: if_split)
  have moderate: "rec_moderate_wind \<in> set recs \<longleftrightarrow>
      \<not> js_gt (w_gust w) 20 \<and> \<not> js_gt (w_speed w) 15 \<and> js_gt (w_speed w) 10"
    if "getRecommendations wd = Inr recs" for recs
    using that unfolding seg
    by (clarsimp simp add: in_set_if in_set_if2 in_set_if3 advisory_neq advisory_neq' truthy_gust
        split del: if_split)
  obtain recs where r: "getRecommendations wd = Inr recs"
    using seg by blast
  show ?thesis
    using r gust [OF r] high [OF r] moderate [OF r] by auto
qed

theorem wind_advisories_exclusive_witness:
  "\<exists>recs. getRecommendations (complete_payload ''Clouds'' 72 72 50 8 (Some 25) 10000 50) = Inr recs
     \<and> rec_gust \<in> set recs \<and> rec_high_wind \<notin> set recs \<and> rec_moderate_wind \<notin> set recs"
proof -
  let ?wd = "complete_payload ''Clouds'' 72 72 50 8 (Some 25) 10000 50"
  obtain m w e where h: "p_main ?wd = Some m" "p_wind ?wd = Some w"
      "p_weather ?wd = Some (e # [])" "e_main e = Some ''Clouds''"
    and gust: "w_gust w = Some 25"
    by (simp add: complete_payload_def)
  from wind_advisories_exclusive [OF h] gust show ?thesis
    by simp
qed

text \<open>
  C8: the recommendation list is never empty, its first entry is the lifeguard reminder, its
  entries stand in the order of the fixed sequence (it is a subsequence of
  \<open>advisory_sequence\<close>), and it has between 1 and 8 entries.
\<close>

theorem recommendations_shape:
  assumes "p_main wd = Some m" "p_wind wd = Some w"
    and "p_weather wd = Some (e # es)" "e_main e = Some c"
  shows "\<exists>recs. getRecommendations wd = Inr recs \<and> recs \<noteq> [] \<and> hd recs = rec_lifeguard \<and>
     subseq recs advisory_sequence \<and> 1 \<le> length recs \<and> length recs \<le> 8"
proof -
  let ?thunder = "if js_includes (toLowerCase c) ''thunderstorm'' then [rec_thunderstorm] else []"
  let ?rain = "if js_includes (toLowerCase c) ''rain'' then [rec_rain] else []"
  let ?wind = "if truthy (w_gust w) \<and> js_gt (w_gust w) 20 then [rec_gust]
        else if js_gt (w_speed w) 15 then [rec_high_wind]
        else if js_gt (w_speed w) 10 then [rec_moderate_wind] else []"
  let ?temp = "if js_lt (m_temp m) 65 then [rec_cold]
        else if js_lt (m_temp m) 75 then [rec_cool] else []"
  let ?feels = "if js_gt (m_feels_like m) 90 then [rec_very_hot]
        else if js_gt (m_feels_like m) 85 then [rec_hot] else []"
  let ?vis = "if js_lt (p_visibility wd) 1000 then [rec_visibility] else []"
  let ?hum = "if js_gt (m_humidity m) 80 \<and> js_gt (m_temp m) 80 then [rec_humidity] else []"
  let ?exc = "if js_includes (toLowerCase c) ''clear'' \<and> js_gt (m_temp m) 75 \<and> js_lt (w_speed w) 10
        then [rec_excellent] else []"
  let ?recs = "[rec_lifeguard] @ ?thunder @ ?rain @ ?wind @ ?temp @ ?feels @ ?vis @ ?hum @ ?exc"
  have run: "getRecommendations wd = Inr ?recs"
    by (rule getRecommendations_segments [OF assms])
  have "subseq ?recs
      ([rec_lifeguard] @ [rec_thunderstorm] @ [rec_rain]
        @ [rec_gust, rec_high_wind, rec_moderate_wind] @ [rec_cold, rec_cool]
        @ [rec_very_hot, rec_hot] @ [rec_visibility] @ [rec_humidity] @ [rec_excellent])"
    by (intro list_emb_append_mono subseq_if subseq_if2 subseq_if3 subseq_order.order_refl)
  then have order: "subseq ?recs advisory_sequence"
    by (simp add: advisory_sequence_def)
  have "length ?thunder \<le> 1" "length ?rain \<le> 1" "length ?wind \<le> 1"
    "length ?feels \<le> 1" "length ?vis \<le> 1"
    by (rule length_if length_if2 length_if3)+
  moreover have "length ?temp + length ?hum + length ?exc \<le> 2"
    by (rule temperature_lines)
  ultimately have len: "length ?recs \<le> 8"
    unfolding length_append by simp
  have "?recs \<noteq> []" "hd ?recs = rec_lifeguard" "1 \<le> length ?recs"
    by simp_all
  with run order len show ?thesis
    by blast
qed

theorem recommendations_shape_witness:
  "\<exists>recs. getRecommendations (complete_payload ''Clear'' 82 88 85 5 (Some 25) 800 10) = Inr recs
     \<and> recs \<noteq> [] \<and> hd recs = rec_lifeguard \<and> subseq recs advisory_sequence
     \<and> 1 \<le> length recs \<and> length recs \<le> 8"
proof -
  let ?wd = "complete_payload ''Clear'' 82 88 85 5 (Some 25) 800 10"
  obtain m w e where h: "p_main ?wd = Some m" "p_wind ?wd = Some w"
      "p_weather ?wd = Some (e # [])" "e_main e = Some ''Clear''"
    by (simp add: complete_payload_def)
  from recommendations_shape [OF h] show ?thesis .
qed

text \<open>
  C10: DANGEROUS is triggered by any condition text whose lower-cased form contains
  \<^verbatim>\<open>storm\<close>, not only \<^verbatim>\<open>thunderstorm\<close>. The witness is the claim's example: \<^verbatim>\<open>Tropical Storm\<close>
  is DANGEROUS, though the specification's category derivation makes it \<open>Other\<close>.
\<close>

theorem storm_is_dangerous:
  assumes "p_main wd = Some m" "p_wind wd = Some w"
    and "p_weather wd = Some (e # es)" "e_main e = Some c"
    and "js_includes (toLowerCase c) ''storm''"
  shows "getSafetyAssessment wd = Inr DANGEROUS"
  using assms by (simp add: getSafetyAssessment_def weather_0_Some)

theorem storm_is_dangerous_witness:
  "spec_category ''Tropical Storm'' = Other
   \<and> getSafetyAssessment (complete_payload ''Tropical Storm'' 80 80 50 5 None 10000 10)
       = Inr DANGEROUS"
proof -
  let ?wd = "complete_payload ''Tropical Storm'' 80 80 50 5 None 10000 10"
  obtain m w e where h: "p_main ?wd = Some m" "p_wind ?wd = Some w"
      "p_weather ?wd = Some (e # [])" "e_main e = Some ''Tropical Storm''"
    by (simp add: complete_payload_def)
  have storm: "js_includes (toLowerCase ''Tropical Storm'') ''storm''"
    by (simp add: string_eval)
  have "spec_category ''Tropical Storm'' = Other"
    by (simp add: spec_category_def string_eval)
  with storm_is_dangerous [OF h storm] show ?thesis
    by simp
qed

text \<open>
  C2, as the code has it. \<^verbatim>\<open>getBeachWeather\<close> does not validate the payload: there is no
  MalformedPayloadError, and a missing number is not rejected. Once the beach is resolved, the
  key is set and the provider has answered with a payload, the outcome is fixed by the payload
  alone, in the order of the reads:
  \<^item> without \<^verbatim>\<open>main\<close>, \<^verbatim>\<open>wind\<close>, \<^verbatim>\<open>weather\<close>, a first \<^verbatim>\<open>weather\<close> entry, \<^verbatim>\<open>clouds\<close> or the
    condition text, it fails with the wrapped TypeError of the read that hit \<^verbatim>\<open>undefined\<close>,
    which names the property being read (\<^verbatim>\<open>temp\<close>, \<^verbatim>\<open>speed\<close>, \<^verbatim>\<open>0\<close>, \<^verbatim>\<open>main\<close>, \<^verbatim>\<open>all\<close>,
    \<^verbatim>\<open>toLowerCase\<close>);
  \<^item> otherwise it returns a result, whichever numbers are missing. Every displayed value and
    every assessment is computed from the payload as received: the rounded values are
    \<^verbatim>\<open>Math.round\<close> of the raw ones, the others are passed through, and the verdict, the
    recommendations and the UV warning are the threshold tests written out below.
  A missing number is \<^verbatim>\<open>undefined\<close> in all of these: its rounded value is NaN, its
  passed-through value is absent, and every threshold test on it is false (the last three
  conjuncts). Nothing is put in its place.
\<close>

theorem missing_fields_are_not_rejected:
  assumes "get_property beachCoordinates (trim (toLowerCase beachName)) = Some beach"
    and "OPENWEATHER_API_KEY env = Some apiKey" "apiKey \<noteq> []"
    and "fetch env \<lparr>q_lat = b_lat beach, q_lon = b_lon beach, q_appid = apiKey\<rparr> = Inr response"
    and "ok response" "json response = Inr weatherData"
  shows "(case p_main weatherData of
      None \<Rightarrow> getBeachWeather env beachName = read_failure ''temp''
    | Some m \<Rightarrow>
     (case p_wind weatherData of
      None \<Rightarrow> getBeachWeather env beachName = read_failure ''speed''
    | Some w \<Rightarrow>
     (case p_weather weatherData of
      None \<Rightarrow> getBeachWeather env beachName = read_failure ''0''
    | Some [] \<Rightarrow> getBeachWeather env beachName = read_failure ''main''
    | Some (e # es) \<Rightarrow>
     (case p_clouds weatherData of
      None \<Rightarrow> getBeachWeather env beachName = read_failure ''all''
    | Some cl \<Rightarrow>
     (case e_main e of
      None \<Rightarrow> getBeachWeather env beachName = read_failure ''toLowerCase''
    | Some c \<Rightarrow>
      (\<exists>r. getBeachWeather env beachName = Inr r
        \<and> getSafetyAssessment weatherData = Inr (s_swimmingConditions (r_safety r))
        \<and> getRecommendations weatherData = Inr (s_recommendations (r_safety r))
        \<and> getUVWarning env weatherData = Inr (s_uvWarning (r_safety r))
        \<and> d_temperature (r_weather r) = Math_round (m_temp m)
        \<and> d_feelsLike (r_weather r) = Math_round (m_feels_like m)
        \<and> d_humidity (r_weather r) = m_humidity m
        \<and> d_windSpeed (r_weather r) = Math_round (w_speed w)
        \<and> d_windDirection (r_weather r) = w_deg w
        \<and> d_conditions (r_weather r) = Some c
        \<and> d_description (r_weather r) = e_description e
        \<and> d_visibility (r_weather r) =
             div_number (Math_round (map_option (\<lambda>v. v / 1609.34 * 10) (p_visibility weatherData))) 10
        \<and> d_pressure (r_weather r) = m_pressure m
        \<and> d_cloudCover (r_weather r) = c_all cl
        \<and> s_swimmingConditions (r_safety r) =
            (if js_includes (toLowerCase c) ''storm'' then DANGEROUS
             else if js_gt (w_speed w) 15 \<or> js_lt (m_temp m) 60
                     \<or> js_includes (toLowerCase c) ''rain''
                     \<or> js_lt (p_visibility weatherData) 1000
             then POOR
             else if js_gt (w_speed w) 10 \<or> js_lt (m_temp m) 70
                     \<or> js_includes (toLowerCase c) ''drizzle'' \<or> js_gt (c_all cl) 80
             then CAUTION
             else GOOD)
        \<and> s_recommendations (r_safety r) =
            [rec_lifeguard]
            @ (if js_includes (toLowerCase c) ''thunderstorm'' then [rec_thunderstorm] else [])
            @ (if js_includes (toLowerCase c) ''rain'' then [rec_rain] else [])
            @ (if js_gt (w_gust w) 20 then [rec_gust]
               else if js_gt (w_speed w) 15 then [rec_high_wind]
               else if js_gt (w_speed w) 10 then [rec_moderate_wind] else [])
            @ (if js_lt (m_temp m) 65 then [rec_cold]
               else if js_lt (m_temp m) 75 then [rec_cool] else [])
            @ (if js_gt (m_feels_like m) 90 then [rec_very_hot]
               else if js_gt (m_feels_like m) 85 then [rec_hot] else [])
            @ (if js_lt (p_visibility weatherData) 1000 then [rec_visibility] else [])
            @ (if js_gt (m_humidity m) 80 \<and> js_gt (m_temp m) 80 then [rec_humidity] else [])
            @ (if js_includes (toLowerCase c) ''clear'' \<and> js_gt (m_temp m) 75
                  \<and> js_lt (w_speed w) 10
               then [rec_excellent] else [])
        \<and> s_uvWarning (r_safety r) =
            (if getHours env \<ge> 10 \<and> getHours env \<le> 16 \<and> js_lt (c_all cl) 30
                \<and> js_gt (m_temp m) 70
             then Some UV_HIGH
             else if getHours env \<ge> 9 \<and> getHours env \<le> 17 \<and> js_lt (c_all cl) 70
             then Some UV_MODERATE
             else None)))))))
    \<and> Math_round None = NaN
    \<and> div_number (Math_round (map_option (\<lambda>v. v / 1609.34 * 10) None)) 10 = NaN
    \<and> (\<forall>threshold. \<not> js_gt None threshold \<and> \<not> js_lt None threshold)"
proof (intro conjI allI)
  note run = getBeachWeather_fetched [OF assms]
  show "case p_main weatherData of
      None \<Rightarrow> getBeachWeather env beachName = read_failure ''temp''
    | Some m \<Rightarrow>
     (case p_wind weatherData of
      None \<Rightarrow> getBeachWeather env beachName = read_failure ''speed''
    | Some w \<Rightarrow>
     (case p_weather weatherData of
      None \<Rightarrow> getBeachWeather env beachName = read_failure ''0''
    | Some [] \<Rightarrow> getBeachWeather env beachName = read_failure ''main''
    | Some (e # es) \<Rightarrow>
     (case p_clouds weatherData of
      None \<Rightarrow> getBeachWeather env beachName = read_failure ''all''
    | Some cl \<Rightarrow>
     (case e_main e of
      None \<Rightarrow> getBeachWeather env beachName = read_failure ''toLowerCase''
    | Some c \<Rightarrow>
      (\<exists>r. getBeachWeather env beachName = Inr r
        \<and> getSafetyAssessment weatherData = Inr (s_swimmingConditions (r_safety r))
        \<and> getRecommendations weatherData = Inr (s_recommendations (r_safety r))
        \<and> getUVWarning env weatherData = Inr (s_uvWarning (r_safety r))
        \<and> d_temperature (r_weather r) = Math_round (m_temp m)
        \<and> d_feelsLike (r_weather r) = Math_round (m_feels_like m)
        \<and> d_humidity (r_weather r) = m_humidity m
        \<and> d_windSpeed (r_weather r) = Math_round (w_speed w)
        \<and> d_windDirection (r_weather r) = w_deg w
        \<and> d_conditions (r_weather r) = Some c
        \<and> d_description (r_weather r) = e_description e
        \<and> d_visibility (r_weather r) =
             div_number (Math_round (map_option (\<lambda>v. v / 1609.34 * 10) (p_visibility weatherData))) 10
        \<and> d_pressure (r_weather r) = m_pressure m
        \<and> d_cloudCover (r_weather r) = c_all cl
        \<and> s_swimmingConditions (r_safety r) =
            (if js_includes (toLowerCase c) ''storm'' then DANGEROUS
             else if js_gt (w_speed w) 15 \<or> js_lt (m_temp m) 60
                     \<or> js_includes (toLowerCase c) ''rain''
                     \<or> js_lt (p_visibility weatherData) 1000
             then POOR
             else if js_gt (w_speed w) 10 \<or> js_lt (m_temp m) 70
                     \<or> js_includes (toLowerCase c) ''drizzle'' \<or> js_gt (c_all cl) 80
             then CAUTION
             else GOOD)
        \<and> s_recommendations (r_safety r) =
            [rec_lifeguard]
            @ (if js_includes (toLowerCase c) ''thunderstorm'' then [rec_thunderstorm] else [])
            @ (if js_includes (toLowerCase c) ''rain'' then [rec_rain] else [])
            @ (if js_gt (w_gust w) 20 then [rec_gust]
               else if js_gt (w_speed w) 15 then [rec_high_wind]
               else if js_gt (w_speed w) 10 then [rec_moderate_wind] else [])
            @ (if js_lt (m_temp m) 65 then [rec_cold]
               else if js_lt (m_temp m) 75 then [rec_cool] else [])
            @ (if js_gt (m_feels_like m) 90 then [rec_very_hot]
               else if js_gt (m_feels_like m) 85 then [rec_hot] else [])
            @ (if js_lt (p_visibility weatherData) 1000 then [rec_visibility] else [])
            @ (if js_gt (m_humidity m) 80 \<and> js_gt (m_temp m) 80 then [rec_humidity] else [])
            @ (if js_includes (toLowerCase c) ''clear'' \<and> js_gt (m_temp m) 75
                  \<and> js_lt (w_speed w) 10
               then [rec_excellent] else [])
        \<and> s_uvWarning (r_safety r) =
            (if getHours env \<ge> 10 \<and> getHours env \<le> 16 \<and> js_lt (c_all cl) 30
                \<and> js_gt (m_temp m) 70
             then Some UV_HIGH
             else if getHours env \<ge> 9 \<and> getHours env \<le> 17 \<and> js_lt (c_all cl) 70
             then Some UV_MODERATE
             else None))))))"
  proof (cases "p_main weatherData")
    case None
    then show ?thesis
      unfolding run by (simp add: weather_record_def)
  next
    case main: (Some m)
    show ?thesis
    proof (cases "p_wind weatherData")
      case None
      with main show ?thesis
        unfolding run by (simp add: weather_record_def)
    next
      case wind: (Some w)
      show ?thesis
      proof (cases "p_weather weatherData")
        case None
        with main wind show ?thesis
          unfolding run by (simp add: weather_record_def weather_0_def)
      next
        case weather: (Some ws)
        show ?thesis
        proof (cases ws)
          case Nil
          with main wind weather show ?thesis
            unfolding run by (simp add: weather_record_def weather_0_def)
        next
          case (Cons e es)
          with weather have entry: "p_weather weatherData = Some (e # es)"
            by simp
          show ?thesis
          proof (cases "p_clouds weatherData")
            case None
            with main wind entry show ?thesis
              unfolding run by (simp add: weather_record_def weather_0_Some)
          next
            case clouds: (Some cl)
            note wr = weather_record_present [OF main wind entry clouds]
            show ?thesis
            proof (cases "e_main e")
              case None
              from wr safety_record_no_condition_text [OF main wind entry None, of env]
              show ?thesis
                unfolding run by (simp add: main wind entry clouds None)
            next
              case cond: (Some c)
              note sr = safety_record_present [OF main wind entry cond clouds, of env]
              note parts = safety_record_Inr [OF sr, simplified]
              show ?thesis
                unfolding run wr sr
                by (simp add: main wind entry clouds cond parts split del: if_split)
            qed
          qed
        qed
      qed
    qed
  qed
qed (simp_all add: Math_round_def div_number_def)

theorem missing_fields_are_not_rejected_witness:
  "\<exists>r. getBeachWeather (provider_env no_wind_speed 12) ''coney island'' = Inr r
     \<and> d_windSpeed (r_weather r) = NaN
     \<and> d_visibility (r_weather r) = NaN
     \<and> d_temperature (r_weather r) = Num 80
     \<and> s_swimmingConditions (r_safety r) = GOOD
     \<and> s_recommendations (r_safety r) = [rec_lifeguard]
     \<and> s_uvWarning (r_safety r) = Some UV_HIGH"
proof -
  let ?env = "provider_env no_wind_speed 12"
  have h: "OPENWEATHER_API_KEY ?env = Some ''key''" "''key'' \<noteq> []"
    "fetch ?env \<lparr>q_lat = b_lat (entry 40.5755 (-73.9707) ''Coney Island Beach''),
        q_lon = b_lon (entry 40.5755 (-73.9707) ''Coney Island Beach''), q_appid = ''key''\<rparr>
      = Inr \<lparr>ok = True, status = 200, statusText = ''OK'', json = Inr no_wind_speed\<rparr>"
    "ok \<lparr>ok = True, status = 200, statusText = ''OK'', json = Inr no_wind_speed\<rparr>"
    "json \<lparr>ok = True, status = 200, statusText = ''OK'', json = Inr no_wind_speed\<rparr>
      = Inr no_wind_speed"
    by (simp_all add: provider_env_def)
  have present: "p_main no_wind_speed = Some \<lparr>m_temp = Some 80, m_feels_like = Some 80,
        m_pressure = Some 1013, m_humidity = Some 50\<rparr>"
    "p_wind no_wind_speed = Some \<lparr>w_speed = None, w_deg = Some 180, w_gust = None\<rparr>"
    "p_weather no_wind_speed = Some [\<lparr>e_main = Some ''Clear'', e_description = Some ''Clear''\<rparr>]"
    "p_clouds no_wind_speed = Some \<lparr>c_all = Some 10\<rparr>"
    "p_visibility no_wind_speed = None"
    by (simp_all add: no_wind_speed_def complete_payload_def)
  have hour: "getHours ?env = 12"
    by (simp add: provider_env_def)
  from missing_fields_are_not_rejected [OF lookup_coney_island h] show ?thesis
    by (simp add: present hour string_eval Math_round_def div_number_def) blast
qed

text \<open>
  C2 as stated fails: a payload without \<^verbatim>\<open>main.temp\<close> is accepted, the displayed temperature
  is NaN, and the classifier runs on it and answers GOOD (every test on the temperature is false).
\<close>

theorem missing_temperature_counterexample:
  "\<exists>r. getBeachWeather (provider_env no_temperature 12) ''coney island'' = Inr r
     \<and> d_temperature (r_weather r) = NaN
     \<and> s_swimmingConditions (r_safety r) = GOOD
     \<and> s_recommendations (r_safety r) = [rec_lifeguard]"
proof -
  have wr: "weather_record no_temperature =
     Inr \<lparr>d_temperature = NaN, d_feelsLike = Num 80, d_humidity = Some 50,
          d_windSpeed = Num 5, d_windDirection = Some 180, d_windGust = None,
          d_conditions = Some ''Clear'', d_description = Some ''Clear'',
          d_visibility = Num (62 / 10), d_pressure = Some 1013, d_cloudCover = Some 10\<rparr>"
    by (simp add: weather_record_def weather_0_def no_temperature_def complete_payload_def
        Math_round_def div_number_def)
  have sr: "safety_record (provider_env no_temperature 12) no_temperature =
     Inr \<lparr>s_swimmingConditions = GOOD, s_recommendations = [rec_lifeguard],
          s_uvWarning = Some UV_MODERATE\<rparr>"
    by (simp add: safety_record_def getSafetyAssessment_def getRecommendations_def
        getUVWarning_def weather_0_def no_temperature_def complete_payload_def provider_env_def
        string_eval)
  show ?thesis
    unfolding getBeachWeather_provider [OF lookup_coney_island wr sr] by simp
qed

text \<open>
  C3: the classifier is deterministic. Its three outputs (verdict, recommendation list, UV
  warning) depend on the payload and on the hour the clock shows, and on nothing else of the
  surroundings: in two surroundings that agree on the hour, the same payload gets the same
  safety record.
\<close>

theorem classifier_depends_on_hour_only:
  assumes "getHours env1 = getHours env2"
  shows "safety_record env1 weatherData = safety_record env2 weatherData"
  using assms by (simp add: safety_record_def getUVWarning_def)

theorem classifier_depends_on_hour_only_witness:
  "safety_record (provider_env (complete_payload ''Clear'' 71 71 50 5 None 10000 29) 10)
       (complete_payload ''Clear'' 71 71 50 5 None 10000 29)
   = safety_record \<lparr>OPENWEATHER_API_KEY = None, fetch = (\<lambda>q. Inl (Error ''offline'')),
        getHours = 10, toISOString = ''2026-01-01T00:00:00.000Z''\<rparr>
       (complete_payload ''Clear'' 71 71 50 5 None 10000 29)"
  using classifier_depends_on_hour_only
    [of "provider_env (complete_payload ''Clear'' 71 71 50 5 None 10000 29) 10"
        "\<lparr>OPENWEATHER_API_KEY = None, fetch = (\<lambda>q. Inl (Error ''offline'')),
          getHours = 10, toISOString = ''2026-01-01T00:00:00.000Z''\<rparr>"]
  by (simp add: provider_env_def)

text \<open>
  C4, as the code has it. No category is derived; every rule tests the lower-cased condition
  text for its own keyword, so upper and lower case do not matter. In the verdict a text with
  a thunderstorm cue is DANGEROUS whatever else it contains. In the recommendation list the
  tests are independent of each other: the thunderstorm line is in the list exactly when the
  text contains \<^verbatim>\<open>thunderstorm\<close>, the rain line exactly when it contains \<^verbatim>\<open>rain\<close>, and the
  excellent-conditions line exactly when it contains \<^verbatim>\<open>clear\<close>, the temperature is over 75
  and the wind under 10.
\<close>

theorem condition_cues_tested_independently:
  assumes "p_main wd = Some m" "p_wind wd = Some w"
    and "p_weather wd = Some (e # es)" "e_main e = Some c"
  shows "(js_includes (toLowerCase c) ''thunderstorm'' \<longrightarrow> getSafetyAssessment wd = Inr DANGEROUS)
    \<and> (\<exists>recs. getRecommendations wd = Inr recs
          \<and> (rec_thunderstorm \<in> set recs \<longleftrightarrow> js_includes (toLowerCase c) ''thunderstorm'')
          \<and> (rec_rain \<in> set recs \<longleftrightarrow> js_includes (toLowerCase c) ''rain'')
          \<and> (rec_excellent \<in> set recs \<longleftrightarrow>
                js_includes (toLowerCase c) ''clear'' \<and> js_gt (m_temp m) 75 \<and> js_lt (w_speed w) 10))
    \<and> (\<forall>c'. toLowerCase c' = toLowerCase c \<longrightarrow>
          getSafetyAssessment (wd\<lparr>p_weather := Some (e\<lparr>e_main := Some c'\<rparr> # es)\<rparr>)
            = getSafetyAssessment wd
          \<and> getRecommendations (wd\<lparr>p_weather := Some (e\<lparr>e_main := Some c'\<rparr> # es)\<rparr>)
            = getRecommendations wd)"
proof (intro conjI allI impI)
  assume "js_includes (toLowerCase c) ''thunderstorm''"
  with assms show "getSafetyAssessment wd = Inr DANGEROUS"
    by (simp add: getSafetyAssessment_def weather_0_Some)
next
  note seg = getRecommendations_segments [OF assms]
  obtain recs where r: "getRecommendations wd = Inr recs"
    using seg by blast
  have "rec_thunderstorm \<in> set recs \<longleftrightarrow> js_includes (toLowerCase c) ''thunderstorm''"
    using r unfolding seg
    by (clarsimp simp add: in_set_if in_set_if2 in_set_if3 advisory_neq advisory_neq'
        split del: if_split)
  moreover have "rec_rain \<in> set recs \<longleftrightarrow> js_includes (toLowerCase c) ''rain''"
    using r unfolding seg
    by (clarsimp simp add: in_set_if in_set_if2 in_set_if3 advisory_neq advisory_neq'
        split del: if_split)
  moreover have "rec_excellent \<in> set recs \<longleftrightarrow>
      js_includes (toLowerCase c) ''clear'' \<and> js_gt (m_temp m) 75 \<and> js_lt (w_speed w) 10"
    using r unfolding seg
    by (clarsimp simp add: in_set_if in_set_if2 in_set_if3 advisory_neq advisory_neq'
        split del: if_split)
  ultimately show "\<exists>recs. getRecommendations wd = Inr recs
      \<and> (rec_thunderstorm \<in> set recs \<longleftrightarrow> js_includes (toLowerCase c) ''thunderstorm'')
      \<and> (rec_rain \<in> set recs \<longleftrightarrow> js_includes (toLowerCase c) ''rain'')
      \<and> (rec_excellent \<in> set recs \<longleftrightarrow>
            js_includes (toLowerCase c) ''clear'' \<and> js_gt (m_temp m) 75 \<and> js_lt (w_speed w) 10)"
    using r by blast
next
  fix c' assume same: "toLowerCase c' = toLowerCase c"
  let ?wd' = "wd\<lparr>p_weather := Some (e\<lparr>e_main := Some c'\<rparr> # es)\<rparr>"
  show "getSafetyAssessment ?wd' = getSafetyAssessment wd"
    using assms same by (simp add: getSafetyAssessment_def weather_0_Some Let_def cong: if_cong)
  have h': "p_main ?wd' = Some m" "p_wind ?wd' = Some w"
      "p_weather ?wd' = Some (e\<lparr>e_main := Some c'\<rparr> # es)" "e_main (e\<lparr>e_main := Some c'\<rparr>) = Some c'"
    using assms by simp_all
  show "getRecommendations ?wd' = getRecommendations wd"
    unfolding getRecommendations_segments [OF h'] getRecommendations_segments [OF assms] same
    by simp
qed

theorem condition_cues_tested_independently_witness:
  "getSafetyAssessment (complete_payload ''Heavy Rain, Thunderstorm'' 80 80 50 5 None 10000 10)
      = Inr DANGEROUS
   \<and> (\<exists>recs. getRecommendations (complete_payload ''Heavy Rain, Thunderstorm'' 80 80 50 5 None 10000 10)
          = Inr recs \<and> rec_thunderstorm \<in> set recs \<and> rec_rain \<in> set recs)"
proof -
  let ?wd = "complete_payload ''Heavy Rain, Thunderstorm'' 80 80 50 5 None 10000 10"
  obtain m w e where h: "p_main ?wd = Some m" "p_wind ?wd = Some w"
      "p_weather ?wd = Some (e # [])" "e_main e = Some ''Heavy Rain, Thunderstorm''"
    by (simp add: complete_payload_def)
  have cues: "js_includes (toLowerCase ''Heavy Rain, Thunderstorm'') ''thunderstorm''"
      "js_includes (toLowerCase ''Heavy Rain, Thunderstorm'') ''rain''"
    by (simp_all add: string_eval)
  from condition_cues_tested_independently [OF h] cues show ?thesis
    by blast
qed

text \<open>
  C4 as stated fails: \<^verbatim>\<open>Thunderstorm with rain\<close> is of the category thunderstorm, and the
  rain rule fires as well as the thunderstorm rule.
\<close>

theorem single_category_counterexample:
  "spec_category ''Thunderstorm with rain'' = Thunderstorm
   \<and> getRecommendations (complete_payload ''Thunderstorm with rain'' 80 80 50 5 None 10000 10)
       = Inr [rec_lifeguard, rec_thunderstorm, rec_rain]"
  by (simp add: spec_category_def getRecommendations_def weather_0_def complete_payload_def
      string_eval)

text \<open>
  C5 fails on the code: a gust of exactly 0 is shown as no gust at all, like an omitted gust
  (line 124 tests the gust for truthiness), although a gust of 0.3 is shown as the number 0.
\<close>

theorem zero_gust_displayed_as_absent:
  "(\<exists>r. getBeachWeather (provider_env (complete_payload ''Clear'' 80 80 50 5 (Some 0) 10000 10) 12)
          ''coney island'' = Inr r \<and> d_windGust (r_weather r) = None)
   \<and> (\<exists>r. getBeachWeather (provider_env (complete_payload ''Clear'' 80 80 50 5 None 10000 10) 12)
          ''coney island'' = Inr r \<and> d_windGust (r_weather r) = None)
   \<and> (\<exists>r. getBeachWeather
          (provider_env (complete_payload ''Clear'' 80 80 50 5 (Some (3 / 10)) 10000 10) 12)
          ''coney island'' = Inr r \<and> d_windGust (r_weather r) = Some (Num 0))"
proof -
  have shown: "\<exists>r. getBeachWeather (provider_env (complete_payload ''Clear'' 80 80 50 5 gust 10000 10) 12)
          ''coney island'' = Inr r
      \<and> d_windGust (r_weather r) = (if truthy gust then Some (Math_round gust) else None)" for gust
  proof -
    let ?wd = "complete_payload ''Clear'' 80 80 50 5 gust 10000 10"
    obtain sr where sr: "safety_record (provider_env ?wd 12) ?wd = Inr sr"
      using safety_record_complete by blast
    show ?thesis
      unfolding getBeachWeather_provider [OF lookup_coney_island weather_record_complete sr]
      by simp
  qed
  from shown [of "Some 0"] shown [of None] shown [of "Some (3 / 10)"] show ?thesis
    by (simp add: Math_round_def)
qed

text \<open>
  C7: classification works on the raw payload values, and rounding touches only the displayed
  values. In every result the tool returns, the verdict, the recommendations and the UV
  warning are the threshold tests below on the numbers of the payload as the provider sent it
  (\<open>m_temp m\<close>, \<open>w_speed w\<close> and so on, none of them rounded), while the displayed temperature,
  feels-like and wind speed are the nearest integers of those numbers, a displayed gust is the
  nearest integer of the gust, and the displayed visibility is the metres divided by 1609.34,
  to one decimal place. The witness is the claim's example: at 59.6 degrees the display shows
  60, the verdict is POOR by the below-60 rule, and the cold-air line is in the list.
\<close>

theorem classification_uses_raw_values:
  assumes "getBeachWeather env beachName = Inr r"
  shows "\<exists>request response weatherData m w e es c cl.
      fetch env request = Inr response \<and> json response = Inr weatherData
      \<and> p_main weatherData = Some m \<and> p_wind weatherData = Some w
      \<and> p_weather weatherData = Some (e # es) \<and> e_main e = Some c
      \<and> p_clouds weatherData = Some cl
      \<and> getSafetyAssessment weatherData = Inr (s_swimmingConditions (r_safety r))
      \<and> getRecommendations weatherData = Inr (s_recommendations (r_safety r))
      \<and> getUVWarning env weatherData = Inr (s_uvWarning (r_safety r))
      \<and> s_swimmingConditions (r_safety r) =
            (if js_includes (toLowerCase c) ''storm'' then DANGEROUS
             else if js_gt (w_speed w) 15 \<or> js_lt (m_temp m) 60
                     \<or> js_includes (toLowerCase c) ''rain''
                     \<or> js_lt (p_visibility weatherData) 1000
             then POOR
             else if js_gt (w_speed w) 10 \<or> js_lt (m_temp m) 70
                     \<or> js_includes (toLowerCase c) ''drizzle'' \<or> js_gt (c_all cl) 80
             then CAUTION
             else GOOD)
      \<and> s_recommendations (r_safety r) =
            [rec_lifeguard]
            @ (if js_includes (toLowerCase c) ''thunderstorm'' then [rec_thunderstorm] else [])
            @ (if js_includes (toLowerCase c) ''rain'' then [rec_rain] else [])
            @ (if js_gt (w_gust w) 20 then [rec_gust]
               else if js_gt (w_speed w) 15 then [rec_high_wind]
               else if js_gt (w_speed w) 10 then [rec_moderate_wind] else [])
            @ (if js_lt (m_temp m) 65 then [rec_cold]
               else if js_lt (m_temp m) 75 then [rec_cool] else [])
            @ (if js_gt (m_feels_like m) 90 then [rec_very_hot]
               else if js_gt (m_feels_like m) 85 then [rec_hot] else [])
            @ (if js_lt (p_visibility weatherData) 1000 then [rec_visibility] else [])
            @ (if js_gt (m_humidity m) 80 \<and> js_gt (m_temp m) 80 then [rec_humidity] else [])
            @ (if js_includes (toLowerCase c) ''clear'' \<and> js_gt (m_temp m) 75
                  \<and> js_lt (w_speed w) 10
               then [rec_excellent] else [])
      \<and> s_uvWarning (r_safety r) =
            (if getHours env \<ge> 10 \<and> getHours env \<le> 16 \<and> js_lt (c_all cl) 30
                \<and> js_gt (m_temp m) 70
             then Some UV_HIGH
             else if getHours env \<ge> 9 \<and> getHours env \<le> 17 \<and> js_lt (c_all cl) 70
             then Some UV_MODERATE
             else None)
      \<and> d_temperature (r_weather r) = Math_round (m_temp m)
      \<and> d_feelsLike (r_weather r) = Math_round (m_feels_like m)
      \<and> d_windSpeed (r_weather r) = Math_round (w_speed w)
      \<and> d_windGust (r_weather r)
          = (if truthy (w_gust w) then Some (Math_round (w_gust w)) else None)
      \<and> d_visibility (r_weather r)
          = div_number (Math_round (map_option (\<lambda>v. v / 1609.34 * 10) (p_visibility weatherData))) 10"
proof -
  from getBeachWeather_Inr [OF assms] obtain request response weatherData where
    fetched: "fetch env request = Inr response" "json response = Inr weatherData"
    and wr: "weather_record weatherData = Inr (r_weather r)"
    and sr: "safety_record env weatherData = Inr (r_safety r)"
    by blast
  from weather_record_needs [OF wr] obtain m w e es cl where
    present: "p_main weatherData = Some m" "p_wind weatherData = Some w"
      "p_weather weatherData = Some (e # es)" "p_clouds weatherData = Some cl"
    by blast
  from safety_record_needs_text [OF sr present(3)] obtain c where
    cond: "e_main e = Some c"
    by blast
  note shown = wr [unfolded weather_record_present [OF present], simplified, symmetric]
  note assessed = sr [unfolded safety_record_present [OF present(1,2,3) cond present(4)],
      simplified, symmetric]
  have display: "d_temperature (r_weather r) = Math_round (m_temp m)"
    "d_feelsLike (r_weather r) = Math_round (m_feels_like m)"
    "d_windSpeed (r_weather r) = Math_round (w_speed w)"
    "d_windGust (r_weather r)
        = (if truthy (w_gust w) then Some (Math_round (w_gust w)) else None)"
    "d_visibility (r_weather r)
        = div_number (Math_round (map_option (\<lambda>v. v / 1609.34 * 10) (p_visibility weatherData))) 10"
    by (simp_all add: shown split del: if_split)
  have safety: "s_swimmingConditions (r_safety r) =
            (if js_includes (toLowerCase c) ''storm'' then DANGEROUS
             else if js_gt (w_speed w) 15 \<or> js_lt (m_temp m) 60
                     \<or> js_includes (toLowerCase c) ''rain''
                     \<or> js_lt (p_visibility weatherData) 1000
             then POOR
             else if js_gt (w_speed w) 10 \<or> js_lt (m_temp m) 70
                     \<or> js_includes (toLowerCase c) ''drizzle'' \<or> js_gt (c_all cl) 80
             then CAUTION
             else GOOD)"
    "s_recommendations (r_safety r) =
            [rec_lifeguard]
            @ (if js_includes (toLowerCase c) ''thunderstorm'' then [rec_thunderstorm] else [])
            @ (if js_includes (toLowerCase c) ''rain'' then [rec_rain] else [])
            @ (if js_gt (w_gust w) 20 then [rec_gust]
               else if js_gt (w_speed w) 15 then [rec_high_wind]
               else if js_gt (w_speed w) 10 then [rec_moderate_wind] else [])
            @ (if js_lt (m_temp m) 65 then [rec_cold]
               else if js_lt (m_temp m) 75 then [rec_cool] else [])
            @ (if js_gt (m_feels_like m) 90 then [rec_very_hot]
               else if js_gt (m_feels_like m) 85 then [rec_hot] else [])
            @ (if js_lt (p_visibility weatherData) 1000 then [rec_visibility] else [])
            @ (if js_gt (m_humidity m) 80 \<and> js_gt (m_temp m) 80 then [rec_humidity] else [])
            @ (if js_includes (toLowerCase c) ''clear'' \<and> js_gt (m_temp m) 75
                  \<and> js_lt (w_speed w) 10
               then [rec_excellent] else [])"
    "s_uvWarning (r_safety r) =
            (if getHours env \<ge> 10 \<and> getHours env \<le> 16 \<and> js_lt (c_all cl) 30
                \<and> js_gt (m_temp m) 70
             then Some UV_HIGH
             else if getHours env \<ge> 9 \<and> getHours env \<le> 17 \<and> js_lt (c_all cl) 70
             then Some UV_MODERATE
             else None)"
    by (simp_all add: assessed split del: if_split)
  from fetched present cond safety_record_Inr [OF sr] safety display show ?thesis
    by blast
qed

theorem classification_uses_raw_values_witness:
  "\<exists>r. getBeachWeather
          (provider_env (complete_payload ''Clear'' 59.6 59.6 50 5 None 10000 10) 12)
          ''coney island'' = Inr r
     \<and> d_temperature (r_weather r) = Num 60
     \<and> s_swimmingConditions (r_safety r) = POOR
     \<and> s_recommendations (r_safety r) = [rec_lifeguard, rec_cold]"
proof -
  let ?wd = "complete_payload ''Clear'' 59.6 59.6 50 5 None 10000 10"
  let ?env = "provider_env ?wd 12"
  obtain sr where sr: "safety_record ?env ?wd = Inr sr"
    using safety_record_complete by blast
  obtain r where run: "getBeachWeather ?env ''coney island'' = Inr r"
    using getBeachWeather_provider [OF lookup_coney_island weather_record_complete sr] by blast
  from classification_uses_raw_values [OF run] obtain request response weatherData m w e es c cl
    where fetched: "fetch ?env request = Inr response" "json response = Inr weatherData"
    and present: "p_main weatherData = Some m" "p_wind weatherData = Some w"
      "p_weather weatherData = Some (e # es)" "e_main e = Some c"
      "p_clouds weatherData = Some cl"
    and verdict: "s_swimmingConditions (r_safety r) =
            (if js_includes (toLowerCase c) ''storm'' then DANGEROUS
             else if js_gt (w_speed w) 15 \<or> js_lt (m_temp m) 60
                     \<or> js_includes (toLowerCase c) ''rain''
                     \<or> js_lt (p_visibility weatherData) 1000
             then POOR
             else if js_gt (w_speed w) 10 \<or> js_lt (m_temp m) 70
                     \<or> js_includes (toLowerCase c) ''drizzle'' \<or> js_gt (c_all cl) 80
             then CAUTION
             else GOOD)"
    and recs: "s_recommendations (r_safety r) =
            [rec_lifeguard]
            @ (if js_includes (toLowerCase c) ''thunderstorm'' then [rec_thunderstorm] else [])
            @ (if js_includes (toLowerCase c) ''rain'' then [rec_rain] else [])
            @ (if js_gt (w_gust w) 20 then [rec_gust]
               else if js_gt (w_speed w) 15 then [rec_high_wind]
               else if js_gt (w_speed w) 10 then [rec_moderate_wind] else [])
            @ (if js_lt (m_temp m) 65 then [rec_cold]
               else if js_lt (m_temp m) 75 then [rec_cool] else [])
            @ (if js_gt (m_feels_like m) 90 then [rec_very_hot]
               else if js_gt (m_feels_like m) 85 then [rec_hot] else [])
            @ (if js_lt (p_visibility weatherData) 1000 then [rec_visibility] else [])
            @ (if js_gt (m_humidity m) 80 \<and> js_gt (m_temp m) 80 then [rec_humidity] else [])
            @ (if js_includes (toLowerCase c) ''clear'' \<and> js_gt (m_temp m) 75
                  \<and> js_lt (w_speed w) 10
               then [rec_excellent] else [])"
    and shown: "d_temperature (r_weather r) = Math_round (m_temp m)"
    by blast
  from fetched have wd: "weatherData = ?wd"
    by (auto simp add: provider_env_def)
  from present have raw: "m_temp m = Some 59.6" "m_feels_like m = Some 59.6"
    "m_humidity m = Some 50" "w_speed w = Some 5" "w_gust w = None" "c = ''Clear''"
    "p_visibility weatherData = Some 10000"
    unfolding wd by (auto simp add: complete_payload_def)
  from shown have "d_temperature (r_weather r) = Num 60"
    by (simp add: raw Math_round_def)
  moreover from verdict have "s_swimmingConditions (r_safety r) = POOR"
    by (simp add: raw string_eval)
  moreover from recs have "s_recommendations (r_safety r) = [rec_lifeguard, rec_cold]"
    by (simp add: raw string_eval)
  ultimately show ?thesis
    using run by blast
qed

text \<open>
  C9 fails on the code: the table is an object literal, so a name that normalises to a
  property every object inherits (\<^verbatim>\<open>constructor\<close>, \<^verbatim>\<open>__proto__\<close>) is found, and the tool goes
  on to ask the provider about a beach without coordinates. A name that is not found at all
  (\<^verbatim>\<open>Atlantis\<close>) gets the error that lists the nine keys.
\<close>

theorem inherited_name_is_not_reported_missing:
  "getBeachWeather strict_env ''Constructor''
       = Inl (Error ''Failed to fetch beach weather data: OpenWeather API error: 400 Bad Request'')
   \<and> getBeachWeather strict_env ''Atlantis''
       = Inl (Error (''Failed to fetch beach weather data: Beach \"Atlantis\" not found. ''
           @ ''Available beaches: coney island, brighton beach, manhattan beach, rockaway beach, ''
           @ ''orchard beach, south beach, midland beach, cedar grove beach, wolfes pond beach''))"
proof
  show "getBeachWeather strict_env ''Constructor''
       = Inl (Error ''Failed to fetch beach weather data: OpenWeather API error: 400 Bad Request'')"
    by (simp add: getBeachWeather_def getBeachWeather_try_def lookup_Constructor strict_env_def
        inherited_function_def char_of_def bit_Suc_0_iff)
  show "getBeachWeather strict_env ''Atlantis''
       = Inl (Error (''Failed to fetch beach weather data: Beach \"Atlantis\" not found. ''
           @ ''Available beaches: coney island, brighton beach, manhattan beach, rockaway beach, ''
           @ ''orchard beach, south beach, midland beach, cedar grove beach, wolfes pond beach''))"
    unfolding not_found_lists_keys [OF lookup_Atlantis] Object_keys_beachCoordinates by simp
qed

end
